theory Spec2Isabelle
  imports Main "HOL-Library.Word" "HOL-Library.Sublist"
begin

section \<open>The release publisher: data model\<close>

text \<open>
  The script \<^verbatim>\<open>publish_github_release_and_cask.cjs\<close> is a single-threaded pipeline over the
  file system, the console and child processes. Strings are lists of 8-bit characters: a
  \<^typ>\<open>char\<close> stands for the JavaScript code unit of the same number, so the model covers text
  whose code units are below 256. A function of the script that touches the outside becomes a
  function from the world to a result and the world after it.
\<close>

datatype 'a res = Done 'a | Throw string | Exit nat

datatype event =
    ExistsSync string
  | ReadFile string
  | Mkdir string
  | CopyFile string string
  | WriteFile string string
  | Spawn string "string list"

record world =
  files :: "string \<rightharpoonup> string"
  dirs :: "string set"
  console :: "string list"
  errors :: "string list"
  trace :: "event list"

text \<open>
  \<^const>\<open>files\<close> maps the path of a regular file to its content, \<^const>\<open>dirs\<close> holds the
  directories, \<^const>\<open>console\<close> the lines written by \<^verbatim>\<open>console.log\<close>, \<^const>\<open>errors\<close>
  the lines written by \<^verbatim>\<open>console.error\<close>. \<^const>\<open>trace\<close> is the history of the calls
  made to \<^verbatim>\<open>node:fs\<close> and \<^verbatim>\<open>spawnSync\<close>, in order; the script never reads it.
\<close>

record options =
  skipBuild :: bool
  skipGh :: bool
  skipCask :: bool
  dryRun :: bool
  draft :: bool
  generateNotes :: bool
  notesFile :: "string option"
  tag :: "string option"
  repo :: string
  caskPath :: string
  assetPath :: "string option"

definition DEFAULT_REPO :: string where
  "DEFAULT_REPO = ''jlcodes99/cockpit-tools''"

definition DEFAULT_CASK_PATH :: string where
  "DEFAULT_CASK_PATH = ''Casks/cockpit-tools.rb''"

definition DEFAULT_TARGET :: string where
  "DEFAULT_TARGET = ''universal-apple-darwin''"

definition DEFAULT_RELEASE_ASSET_PREFIX :: string where
  "DEFAULT_RELEASE_ASSET_PREFIX = ''Cockpit.Tools''"

definition log :: "string \<Rightarrow> world \<Rightarrow> world" where
  "log line w = w\<lparr>console := console w @ [line]\<rparr>"

definition record_event :: "event \<Rightarrow> world \<Rightarrow> world" where
  "record_event e w = w\<lparr>trace := trace w @ [e]\<rparr>"

text \<open>JavaScript truthiness of a value that is a string, \<^verbatim>\<open>null\<close> or \<^verbatim>\<open>undefined\<close>.\<close>

definition truthy :: "string option \<Rightarrow> bool" where
  "truthy v = (case v of None \<Rightarrow> False | Some s \<Rightarrow> s \<noteq> [])"

definition andThen :: "'a res \<times> world \<Rightarrow> ('a \<Rightarrow> world \<Rightarrow> 'b res \<times> world) \<Rightarrow> 'b res \<times> world" where
  "andThen m f = (case m of
      (Done x, w) \<Rightarrow> f x w
    | (Throw e, w) \<Rightarrow> (Throw e, w)
    | (Exit n, w) \<Rightarrow> (Exit n, w))"

section \<open>Argument resolver\<close>

definition help_lines :: "string list" where
  "help_lines =
    [''Usage: node scripts/release/publish_github_release_and_cask.cjs [options]'',
     '''',
     ''Build universal DMG, upload it to GitHub Release, and update Homebrew cask.'',
     '''',
     ''Options:'',
     ''  --skip-build            Skip Tauri universal build step'',
     ''  --skip-gh               Skip GitHub Release create/upload step'',
     ''  --skip-cask             Skip cask file update step'',
     ''  --dry-run               Print planned actions without writing/uploading'',
     ''  --draft                 Create release as draft when release does not exist'',
     ''  --generate-notes        Use GitHub generated release notes when creating release'',
     ''  --notes-file <path>     Pass release notes file to gh release create'',
     ''  --tag <tag>             Override release tag (default: v<package.json.version>)'',
     ''  --repo <owner/repo>     GitHub repo for release (default: jlcodes99/cockpit-tools)'',
     ''  --cask <path>           Homebrew cask file path (default: Casks/cockpit-tools.rb)'',
     ''  --asset-path <path>     Use an existing universal .dmg instead of default output path'',
     ''  -h, --help              Show this help'']"

definition printHelp :: "world \<Rightarrow> world" where
  "printHelp w = w\<lparr>console := console w @ help_lines\<rparr>"

definition default_options :: options where
  "default_options =
    \<lparr>skipBuild = False, skipGh = False, skipCask = False, dryRun = False, draft = False,
     generateNotes = False, notesFile = None, tag = None, repo = DEFAULT_REPO,
     caskPath = DEFAULT_CASK_PATH, assetPath = None\<rparr>"

definition requireValue :: "string \<Rightarrow> string option \<Rightarrow> string res" where
  "requireValue flagName v =
    (if \<not> truthy v then Throw (''Missing value for '' @ flagName) else Done (the v))"

text \<open>\<^verbatim>\<open>args.shift()\<close>: the first element, or \<^verbatim>\<open>undefined\<close> on the empty array.\<close>

definition shift :: "string list \<Rightarrow> string option \<times> string list" where
  "shift args = (case args of [] \<Rightarrow> (None, []) | x # xs \<Rightarrow> (Some x, xs))"

function parseLoop :: "string list \<Rightarrow> options \<Rightarrow> world \<Rightarrow> options res \<times> world" where
  "parseLoop [] opts w = (Done opts, w)"
| "parseLoop (token # args) opts w =
    (if token = ''--skip-build'' then parseLoop args (opts\<lparr>skipBuild := True\<rparr>) w
     else if token = ''--skip-gh'' then parseLoop args (opts\<lparr>skipGh := True\<rparr>) w
     else if token = ''--skip-cask'' then parseLoop args (opts\<lparr>skipCask := True\<rparr>) w
     else if token = ''--dry-run'' then parseLoop args (opts\<lparr>dryRun := True\<rparr>) w
     else if token = ''--draft'' then parseLoop args (opts\<lparr>draft := True\<rparr>) w
     else if token = ''--generate-notes'' then parseLoop args (opts\<lparr>generateNotes := True\<rparr>) w
     else if token = ''--notes-file'' then
       (case requireValue token (fst (shift args)) of
          Done v \<Rightarrow> parseLoop (snd (shift args)) (opts\<lparr>notesFile := Some v\<rparr>) w
        | Throw e \<Rightarrow> (Throw e, w)
        | Exit n \<Rightarrow> (Exit n, w))
     else if token = ''--tag'' then
       (case requireValue token (fst (shift args)) of
          Done v \<Rightarrow> parseLoop (snd (shift args)) (opts\<lparr>tag := Some v\<rparr>) w
        | Throw e \<Rightarrow> (Throw e, w)
        | Exit n \<Rightarrow> (Exit n, w))
     else if token = ''--repo'' then
       (case requireValue token (fst (shift args)) of
          Done v \<Rightarrow> parseLoop (snd (shift args)) (opts\<lparr>repo := v\<rparr>) w
        | Throw e \<Rightarrow> (Throw e, w)
        | Exit n \<Rightarrow> (Exit n, w))
     else if token = ''--cask'' then
       (case requireValue token (fst (shift args)) of
          Done v \<Rightarrow> parseLoop (snd (shift args)) (opts\<lparr>caskPath := v\<rparr>) w
        | Throw e \<Rightarrow> (Throw e, w)
        | Exit n \<Rightarrow> (Exit n, w))
     else if token = ''--asset-path'' then
       (case requireValue token (fst (shift args)) of
          Done v \<Rightarrow> parseLoop (snd (shift args)) (opts\<lparr>assetPath := Some v\<rparr>) w
        | Throw e \<Rightarrow> (Throw e, w)
        | Exit n \<Rightarrow> (Exit n, w))
     else if token = ''-h'' \<or> token = ''--help'' then (Exit 0, printHelp w)
     else (Throw (''Unknown argument: '' @ token), w))"
  by pat_completeness auto
termination
  by (relation "measure (\<lambda>(args, opts, w). length args)") (auto simp: shift_def split: list.splits)

definition parseArgs :: "string list \<Rightarrow> world \<Rightarrow> options res \<times> world" where
  "parseArgs rawArgs w =
    andThen (parseLoop rawArgs default_options w) (\<lambda>opts w'.
      if truthy (notesFile opts) \<and> generateNotes opts
      then (Throw ''Use either --notes-file or --generate-notes, not both.'', w')
      else (Done opts, w'))"

section \<open>The environment\<close>

text \<open>
  What the script takes from Node and from the machine it runs on is a parameter of the model:
  the functions of \<^verbatim>\<open>node:path\<close>, the working directory, the platform, the behaviour of
  child processes (a process may change files and directories), the SHA-256 function of
  \<^verbatim>\<open>node:crypto\<close> (its 256-bit value) and the reading of \<^verbatim>\<open>version\<close> from the text of
  \<^verbatim>\<open>package.json\<close> (\<^verbatim>\<open>JSON.parse\<close> may throw; the value may be absent).
  Failures of the file system other than a missing file, a directory in the place of a file
  and a file in the place of a directory are not modelled.
\<close>

record spawn_options =
  sp_cwd :: string
  sp_stdio :: string
  sp_shell :: bool

record spawn_result =
  error :: "string option"
  status :: "int option"
  stdout :: "string option"
  stderr :: "string option"

record env =
  path_resolve :: "string list \<Rightarrow> string"
  path_join :: "string list \<Rightarrow> string"
  path_relative :: "string \<Rightarrow> string \<Rightarrow> string"
  process_cwd :: string
  platform_win32 :: bool
  spawnSync :: "string \<Rightarrow> string list \<Rightarrow> spawn_options
                 \<Rightarrow> (string \<rightharpoonup> string) \<times> string set
                 \<Rightarrow> spawn_result \<times> (string \<rightharpoonup> string) \<times> string set"
  sha256_of :: "string \<Rightarrow> 256 word"
  package_version :: "string \<Rightarrow> string option res"

record run_options =
  ro_cwd :: "string option"
  ro_stdio :: "string option"
  ro_dryRun :: bool
  ro_allowFailure :: bool

definition run_defaults :: run_options where
  "run_defaults = \<lparr>ro_cwd = None, ro_stdio = None, ro_dryRun = False, ro_allowFailure = False\<rparr>"

subsection \<open>Strings and numbers\<close>

fun join_with :: "string \<Rightarrow> string list \<Rightarrow> string" where
  "join_with sep [] = []"
| "join_with sep [x] = x"
| "join_with sep (x # y # ys) = x @ sep @ join_with sep (y # ys)"

definition digit_char :: "nat \<Rightarrow> char" where
  "digit_char n = ''0123456789'' ! n"

fun show_nat :: "nat \<Rightarrow> string" where
  "show_nat n = (if n < 10 then [digit_char n] else show_nat (n div 10) @ [digit_char (n mod 10)])"

definition show_int :: "int \<Rightarrow> string" where
  "show_int i = (if i < 0 then ''-'' @ show_nat (nat (- i)) else show_nat (nat i))"

definition is_space :: "char \<Rightarrow> bool" where
  "is_space c = (c \<in> {CHR 0x09, CHR 0x0A, CHR 0x0B, CHR 0x0C, CHR 0x0D, CHR 0x20, CHR 0xA0})"

definition is_line_terminator :: "char \<Rightarrow> bool" where
  "is_line_terminator c = (c \<in> {CHR 0x0A, CHR 0x0D})"

definition trim :: "string \<Rightarrow> string" where
  "trim s = rev (dropWhile is_space (rev (dropWhile is_space s)))"

fun str_includes :: "string \<Rightarrow> string \<Rightarrow> bool" where
  "str_includes [] sub = (sub = [])"
| "str_includes (x # xs) sub = (prefix sub (x # xs) \<or> str_includes xs sub)"

subsection \<open>File system calls\<close>

definition existsSync :: "string \<Rightarrow> world \<Rightarrow> bool \<times> world" where
  "existsSync p w = (files w p \<noteq> None \<or> p \<in> dirs w, record_event (ExistsSync p) w)"

definition readFileSync :: "string \<Rightarrow> world \<Rightarrow> string res \<times> world" where
  "readFileSync p w =
    (case files w p of
       None \<Rightarrow> (Throw (''ENOENT: no such file or directory, open '' @ p), record_event (ReadFile p) w)
     | Some c \<Rightarrow> (Done c, record_event (ReadFile p) w))"

definition mkdirSync :: "string \<Rightarrow> world \<Rightarrow> unit res \<times> world" where
  "mkdirSync p w =
    (if files w p \<noteq> None
     then (Throw (''EEXIST: file already exists, mkdir '' @ p), record_event (Mkdir p) w)
     else (Done (), record_event (Mkdir p) (w\<lparr>dirs := insert p (dirs w)\<rparr>)))"

definition copyFileSync :: "string \<Rightarrow> string \<Rightarrow> world \<Rightarrow> unit res \<times> world" where
  "copyFileSync src dst w =
    (case files w src of
       None \<Rightarrow> (Throw (''ENOENT: no such file or directory, copyfile '' @ src),
                record_event (CopyFile src dst) w)
     | Some c \<Rightarrow>
         if dst \<in> dirs w
         then (Throw (''EISDIR: illegal operation on a directory, copyfile '' @ src),
               record_event (CopyFile src dst) w)
         else (Done (), record_event (CopyFile src dst) (w\<lparr>files := (files w)(dst \<mapsto> c)\<rparr>)))"

definition writeFileSync :: "string \<Rightarrow> string \<Rightarrow> world \<Rightarrow> unit res \<times> world" where
  "writeFileSync p c w =
    (if p \<in> dirs w
     then (Throw (''EISDIR: illegal operation on a directory, open '' @ p),
           record_event (WriteFile p c) w)
     else (Done (), record_event (WriteFile p c) (w\<lparr>files := (files w)(p \<mapsto> c)\<rparr>)))"

section \<open>Command runner\<close>

definition readPackageVersion :: "env \<Rightarrow> world \<Rightarrow> string res \<times> world" where
  "readPackageVersion e w =
    andThen (readFileSync (path_resolve e [''package.json'']) w) (\<lambda>text w1.
      case package_version e text of
        Throw msg \<Rightarrow> (Throw msg, w1)
      | Exit n \<Rightarrow> (Exit n, w1)
      | Done v \<Rightarrow>
          if \<not> truthy v then (Throw ''package.json.version is missing'', w1)
          else (Done (the v), w1))"

definition logSection :: "string \<Rightarrow> world \<Rightarrow> world" where
  "logSection title w = log ([CHR 0x0A] @ ''=== '' @ title @ '' ==='') w"

definition formatCommand :: "string \<Rightarrow> string list \<Rightarrow> string" where
  "formatCommand cmd args = join_with '' '' (cmd # args)"

definition dry_result :: spawn_result where
  "dry_result = \<lparr>error = None, status = Some 0, stdout = Some [], stderr = Some []\<rparr>"

definition runCommand :: "env \<Rightarrow> string \<Rightarrow> string list \<Rightarrow> run_options \<Rightarrow> world
    \<Rightarrow> spawn_result res \<times> world" where
  "runCommand e cmd args ro w =
    (let cwd = (if truthy (ro_cwd ro) then the (ro_cwd ro) else process_cwd e);
         stdio = (if truthy (ro_stdio ro) then the (ro_stdio ro) else ''inherit'');
         shell = platform_win32 e;
         w1 = log (''cwd: '' @ cwd) (log (''$ '' @ formatCommand cmd args) w)
     in if ro_dryRun ro then (Done dry_result, log ''[dry-run] skipped'' w1)
        else
          (let (result, fs, ds) =
                 spawnSync e cmd args \<lparr>sp_cwd = cwd, sp_stdio = stdio, sp_shell = shell\<rparr>
                   (files w1, dirs w1);
               w2 = record_event (Spawn cmd args) (w1\<lparr>files := fs, dirs := ds\<rparr>)
           in case error result of
                Some err \<Rightarrow> if ro_allowFailure ro then (Done result, w2) else (Throw err, w2)
              | None \<Rightarrow>
                  (case status result of
                     Some n \<Rightarrow>
                       if n \<noteq> 0 \<and> \<not> ro_allowFailure ro
                       then (Throw (''Command failed (exit='' @ show_int n @ ''): ''
                                    @ formatCommand cmd args), w2)
                       else (Done result, w2)
                   | None \<Rightarrow> (Done result, w2))))"

definition ensureFileExists :: "string \<Rightarrow> string \<Rightarrow> world \<Rightarrow> unit res \<times> world" where
  "ensureFileExists filePath label w =
    (let (ex, w1) = existsSync filePath w
     in if \<not> ex then (Throw (label @ '' not found: '' @ filePath), w1) else (Done (), w1))"

section \<open>Build trigger, artifact locator and stager, digest\<close>

definition buildUniversalIfNeeded :: "env \<Rightarrow> string \<Rightarrow> options \<Rightarrow> world \<Rightarrow> unit res \<times> world" where
  "buildUniversalIfNeeded e version opts w =
    (if skipBuild opts then (Done (), log ''[skip] universal build'' w)
     else andThen
       (runCommand e ''npm'' [''run'', ''tauri'', ''build'', ''--'', ''--target'', DEFAULT_TARGET]
          (run_defaults\<lparr>ro_dryRun := dryRun opts\<rparr>) (logSection ''Build Universal DMG'' w))
       (\<lambda>_ w1. (Done (), w1)))"

definition resolveSourceDmgPath :: "env \<Rightarrow> string \<Rightarrow> options \<Rightarrow> world \<Rightarrow> string res \<times> world" where
  "resolveSourceDmgPath e version opts w =
    (if truthy (assetPath opts) then
       (let custom = path_resolve e [the (assetPath opts)]
        in andThen (ensureFileExists custom ''Asset'' w) (\<lambda>_ w1. (Done custom, w1)))
     else
       (let defaultPath = path_resolve e
              [''src-tauri'', ''target'', DEFAULT_TARGET, ''release'', ''bundle'', ''dmg'',
               ''Cockpit Tools_'' @ version @ ''_universal.dmg'']
        in andThen (ensureFileExists defaultPath ''Universal DMG'' w) (\<lambda>_ w1. (Done defaultPath, w1))))"

definition stageReleaseAsset :: "env \<Rightarrow> string \<Rightarrow> string \<Rightarrow> options \<Rightarrow> world
    \<Rightarrow> (string \<times> string) res \<times> world" where
  "stageReleaseAsset e sourcePath version opts w =
    (let releaseArtifactsDir = path_resolve e [''release-artifacts''];
         stagedName = DEFAULT_RELEASE_ASSET_PREFIX @ ''_'' @ version @ ''_universal.dmg'';
         stagedPath = path_join e [releaseArtifactsDir, stagedName];
         w1 = log (''staged: '' @ stagedPath) (log (''source: '' @ sourcePath)
                (logSection ''Stage Release Asset'' w))
     in if dryRun opts then (Done (stagedPath, stagedName), log ''[dry-run] skipped copy'' w1)
        else
          andThen (mkdirSync releaseArtifactsDir w1) (\<lambda>_ w2.
          andThen (if path_resolve e [sourcePath] \<noteq> path_resolve e [stagedPath]
                   then copyFileSync sourcePath stagedPath w2 else (Done (), w2)) (\<lambda>_ w3.
          andThen (ensureFileExists stagedPath ''Staged DMG'' w3) (\<lambda>_ w4.
            (Done (stagedPath, stagedName), w4)))))"

definition hex_digit :: "nat \<Rightarrow> char" where
  "hex_digit n = ''0123456789abcdef'' ! n"

text \<open>\<^verbatim>\<open>hash.digest('hex')\<close>: the 32 bytes of the digest, two hexadecimal digits each.\<close>

definition digest_hex :: "256 word \<Rightarrow> string" where
  "digest_hex d = map (\<lambda>i. hex_digit (unat (drop_bit (4 * i) d) mod 16)) (rev [0..<64])"

definition sha256 :: "env \<Rightarrow> string \<Rightarrow> world \<Rightarrow> string res \<times> world" where
  "sha256 e filePath w =
    andThen (readFileSync filePath w) (\<lambda>input w1. (Done (digest_hex (sha256_of e input)), w1))"

section \<open>Release publisher\<close>

definition ensureGhAvailable :: "env \<Rightarrow> options \<Rightarrow> world \<Rightarrow> unit res \<times> world" where
  "ensureGhAvailable e opts w =
    (if skipGh opts then (Done (), log ''[skip] GitHub Release upload'' w)
     else
       andThen (runCommand e ''gh'' [''--version''] (run_defaults\<lparr>ro_dryRun := dryRun opts\<rparr>)
                  (logSection ''Check GitHub CLI'' w)) (\<lambda>_ w1.
       andThen (runCommand e ''gh'' [''auth'', ''status''] (run_defaults\<lparr>ro_dryRun := dryRun opts\<rparr>) w1)
         (\<lambda>_ w2. (Done (), w2))))"

definition or_empty :: "string option \<Rightarrow> string" where
  "or_empty v = (case v of None \<Rightarrow> [] | Some s \<Rightarrow> s)"

definition ghReleaseExists :: "env \<Rightarrow> string \<Rightarrow> string \<Rightarrow> options \<Rightarrow> world \<Rightarrow> bool res \<times> world" where
  "ghReleaseExists e tagName repoName opts w =
    andThen
      (runCommand e ''gh'' [''release'', ''view'', tagName, ''--repo'', repoName]
         \<lparr>ro_cwd = None, ro_stdio = Some ''pipe'', ro_dryRun = dryRun opts, ro_allowFailure = True\<rparr> w)
      (\<lambda>result w1.
         if dryRun opts
         then (Done False, log ''[dry-run] assume release exists check is skipped'' w1)
         else if status result = Some 0 then (Done True, w1)
         else
           (let err = or_empty (stderr result);
                out = or_empty (stdout result);
                combined = trim (out @ [CHR 0x0A] @ err)
            in if combined \<noteq> []
               then (Done False, log (''[info] gh release view returned non-zero: '' @ combined) w1)
               else (Done False, w1)))"

definition uploadToGitHubRelease :: "env \<Rightarrow> string \<Rightarrow> string \<Rightarrow> string \<Rightarrow> options \<Rightarrow> world
    \<Rightarrow> unit res \<times> world" where
  "uploadToGitHubRelease e tagName repoName stagedPath opts w =
    (if skipGh opts then (Done (), w)
     else
       andThen (ghReleaseExists e tagName repoName opts (logSection ''GitHub Release Upload'' w))
         (\<lambda>releaseExists w1.
            if \<not> releaseExists then
              (let createArgs =
                     [''release'', ''create'', tagName, stagedPath, ''--repo'', repoName, ''--title'', tagName]
                     @ (if draft opts then [''--draft''] else [])
                     @ (if truthy (notesFile opts)
                        then [''--notes-file'', path_resolve e [the (notesFile opts)]]
                        else if generateNotes opts then [''--generate-notes'']
                        else [''--notes'', ''Release '' @ tagName])
               in andThen (runCommand e ''gh'' createArgs (run_defaults\<lparr>ro_dryRun := dryRun opts\<rparr>) w1)
                    (\<lambda>_ w2. (Done (), w2)))
            else
              andThen (runCommand e ''gh''
                         [''release'', ''upload'', tagName, stagedPath, ''--repo'', repoName, ''--clobber'']
                         (run_defaults\<lparr>ro_dryRun := dryRun opts\<rparr>) w1)
                (\<lambda>_ w2. (Done (), w2))))"

section \<open>Regular expressions of the manifest updater\<close>

text \<open>
  The five patterns of \<^verbatim>\<open>updateCaskFile\<close> have the shape \<^verbatim>\<open>/^ ... /m\<close>: a line anchor and
  then literals and greedy repetitions of a character class. An \<open>atom\<close> is one such
  element, and \<open>bt\<close> is the backtracking matcher of ECMAScript on a list of atoms: a greedy
  repetition first tries one more character and, when the rest of the pattern fails after
  it, stops where it is. The matcher returns the text each atom matched and the rest of the
  input.
\<close>

datatype atom = Lit string | Star "char \<Rightarrow> bool" | Plus "char \<Rightarrow> bool"

record regex =
  atoms :: "atom list"
  groups :: "(nat \<times> nat) list"

text \<open>A capture group \<open>(i, n)\<close> spans the \<open>n\<close> atoms from atom \<open>i\<close> on.\<close>

definition push_char :: "char \<Rightarrow> string list \<times> string \<Rightarrow> string list \<times> string" where
  "push_char x m = (case fst m of [] \<Rightarrow> ([[x]], snd m) | p # ps \<Rightarrow> ((x # p) # ps, snd m))"

definition push_piece :: "string \<Rightarrow> string list \<times> string \<Rightarrow> string list \<times> string" where
  "push_piece p m = (p # fst m, snd m)"

fun bt :: "atom list \<Rightarrow> string \<Rightarrow> (string list \<times> string) option" where
  "bt [] s = Some ([], s)"
| "bt (Lit l # rs) s =
    (if prefix l s then map_option (push_piece l) (bt rs (drop (length l) s)) else None)"
| "bt (Star c # rs) [] = map_option (push_piece []) (bt rs [])"
| "bt (Star c # rs) (x # xs) =
    (if c x then
       (case bt (Star c # rs) xs of
          Some m \<Rightarrow> Some (push_char x m)
        | None \<Rightarrow> map_option (push_piece []) (bt rs (x # xs)))
     else map_option (push_piece []) (bt rs (x # xs)))"
| "bt (Plus c # rs) [] = None"
| "bt (Plus c # rs) (x # xs) =
    (if c x then map_option (push_char x) (bt (Star c # rs) xs) else None)"

text \<open>
  \<^verbatim>\<open>^\<close> under the flag \<^verbatim>\<open>m\<close> holds at the start of the input and after a line terminator.
  The search tries every index from the left, the end of the input included.
\<close>

definition at_line_start :: "string \<Rightarrow> bool" where
  "at_line_start pre = (pre = [] \<or> is_line_terminator (last pre))"

fun search_from :: "atom list \<Rightarrow> string \<Rightarrow> string \<Rightarrow> (string \<times> string list \<times> string) option" where
  "search_from rs pre [] =
    (if at_line_start pre then map_option (\<lambda>m. (pre, fst m, snd m)) (bt rs []) else None)"
| "search_from rs pre (x # xs) =
    (case (if at_line_start pre then bt rs (x # xs) else None) of
       Some m \<Rightarrow> Some (pre, fst m, snd m)
     | None \<Rightarrow> search_from rs (pre @ [x]) xs)"

definition regex_exec :: "regex \<Rightarrow> string \<Rightarrow> (string \<times> string list \<times> string) option" where
  "regex_exec re s = search_from (atoms re) [] s"

definition captures :: "regex \<Rightarrow> string list \<Rightarrow> string list" where
  "captures re ps = map (\<lambda>(i, n). concat (take n (drop i ps))) (groups re)"

definition regex_test :: "regex \<Rightarrow> string \<Rightarrow> bool" where
  "regex_test re s = (regex_exec re s \<noteq> None)"

text \<open>\<^verbatim>\<open>str.match(re)\<close> without the flag \<^verbatim>\<open>g\<close>: the matched text, then the captures.\<close>

definition string_match :: "string \<Rightarrow> regex \<Rightarrow> string list option" where
  "string_match s re =
    (case regex_exec re s of
       None \<Rightarrow> None
     | Some (pre, ps, post) \<Rightarrow> Some (concat ps # captures re ps))"

definition is_digit :: "char \<Rightarrow> bool" where
  "is_digit c = (c \<in> set ''0123456789'')"

definition digit_value :: "char \<Rightarrow> nat" where
  "digit_value c = of_char c - 48"

text \<open>
  The replacement text of \<^verbatim>\<open>String.prototype.replace\<close> (GetSubstitution, without named
  groups): \<^verbatim>\<open>$$\<close>, \<^verbatim>\<open>$&\<close>, the text before and after the match, and \<^verbatim>\<open>$n\<close>, \<^verbatim>\<open>$nn\<close>,
  where two digits that exceed the number of groups count as one digit and a literal digit.
\<close>

fun getSubstitution :: "string \<Rightarrow> string \<Rightarrow> string \<Rightarrow> string list \<Rightarrow> string \<Rightarrow> string" where
  "getSubstitution matched pre post caps [] = []"
| "getSubstitution matched pre post caps [c] = [c]"
| "getSubstitution matched pre post caps (c # d # t) =
    (if c \<noteq> CHR ''$'' then c # getSubstitution matched pre post caps (d # t)
     else if d = CHR ''$'' then CHR ''$'' # getSubstitution matched pre post caps t
     else if d = CHR ''&'' then matched @ getSubstitution matched pre post caps t
     else if d = CHR 0x60 then pre @ getSubstitution matched pre post caps t
     else if d = CHR 0x27 then post @ getSubstitution matched pre post caps t
     else if is_digit d then
       (case t of
          [] \<Rightarrow>
            (if 1 \<le> digit_value d \<and> digit_value d \<le> length caps
             then caps ! (digit_value d - 1) else [c, d])
        | d2 # t2 \<Rightarrow>
            if is_digit d2 \<and> 10 * digit_value d + digit_value d2 \<le> length caps then
              (if 1 \<le> 10 * digit_value d + digit_value d2
               then caps ! (10 * digit_value d + digit_value d2 - 1) else [c, d, d2])
              @ getSubstitution matched pre post caps t2
            else
              (if 1 \<le> digit_value d \<and> digit_value d \<le> length caps
               then caps ! (digit_value d - 1) else [c, d])
              @ getSubstitution matched pre post caps (d2 # t2))
     else c # getSubstitution matched pre post caps (d # t))"

text \<open>\<^verbatim>\<open>str.replace(re, template)\<close> without the flag \<^verbatim>\<open>g\<close>: the first match only.\<close>

definition string_replace :: "string \<Rightarrow> regex \<Rightarrow> string \<Rightarrow> string" where
  "string_replace s re template =
    (case regex_exec re s of
       None \<Rightarrow> s
     | Some (pre, ps, post) \<Rightarrow>
         pre @ getSubstitution (concat ps) pre post (captures re ps) template @ post)"

definition dq :: char where
  "dq = CHR 0x22"

definition not_dq :: "char \<Rightarrow> bool" where
  "not_dq c = (c \<noteq> dq)"

definition is_hex :: "char \<Rightarrow> bool" where
  "is_hex c = (c \<in> set ''0123456789abcdefABCDEF'')"

text \<open>\<^verbatim>\<open>/^(\s*version\s+")([^"]+)(")/m\<close>\<close>

definition version_re :: regex where
  "version_re =
    \<lparr>atoms = [Star is_space, Lit ''version'', Plus is_space, Lit [dq], Plus not_dq, Lit [dq]],
     groups = [(0, 4), (4, 1), (5, 1)]\<rparr>"

text \<open>\<^verbatim>\<open>/^(\s*sha256\s+")([0-9a-fA-F]+)(")/m\<close>\<close>

definition sha256_re :: regex where
  "sha256_re =
    \<lparr>atoms = [Star is_space, Lit ''sha256'', Plus is_space, Lit [dq], Plus is_hex, Lit [dq]],
     groups = [(0, 4), (4, 1), (5, 1)]\<rparr>"

text \<open>\<^verbatim>\<open>/^\s*url\s+"([^"]+)"/m\<close>\<close>

definition url_re :: regex where
  "url_re =
    \<lparr>atoms = [Star is_space, Lit ''url'', Plus is_space, Lit [dq], Plus not_dq, Lit [dq]],
     groups = [(4, 1)]\<rparr>"

text \<open>\<^verbatim>\<open>/^\s*version\s+"([^"]+)"/m\<close>\<close>

definition version_line_re :: regex where
  "version_line_re =
    \<lparr>atoms = [Star is_space, Lit ''version'', Plus is_space, Lit [dq], Plus not_dq, Lit [dq]],
     groups = [(4, 1)]\<rparr>"

text \<open>\<^verbatim>\<open>/^\s*sha256\s+"([^"]+)"/m\<close>\<close>

definition sha256_line_re :: regex where
  "sha256_line_re =
    \<lparr>atoms = [Star is_space, Lit ''sha256'', Plus is_space, Lit [dq], Plus not_dq, Lit [dq]],
     groups = [(4, 1)]\<rparr>"

section \<open>Manifest updater\<close>

definition replaceRequired :: "string \<Rightarrow> regex \<Rightarrow> string \<Rightarrow> string \<Rightarrow> string res" where
  "replaceRequired content pattern replacer label =
    (if \<not> regex_test pattern content then Throw (''Failed to find '' @ label @ '' in cask file'')
     else Done (string_replace content pattern replacer))"

text \<open>\<^verbatim>\<open>s.match(re)?.[0] || ''\<close>\<close>

definition match_line :: "string \<Rightarrow> regex \<Rightarrow> string" where
  "match_line s re = (case string_match s re of None \<Rightarrow> [] | Some m \<Rightarrow> m ! 0)"

text \<open>
  \<^verbatim>\<open>updateCaskFile\<close> in three parts. \<open>updateCaskContent\<close> is its computation on the text of
  the manifest: the two substitutions and the check of the url line, up to the second
  \<^verbatim>\<open>throw\<close>. \<open>commitCaskUpdate\<close> is the rest of the function: the comparison with the
  original text, the preview under dry run, the write. \<open>updateCaskFile\<close> puts them after the
  skip flag, the existence check and the read.
\<close>

definition updateCaskContent :: "string \<Rightarrow> string \<Rightarrow> string \<Rightarrow> string res" where
  "updateCaskContent version digest original =
    (case replaceRequired original version_re (''$1'' @ version @ ''$3'') ''version'' of
       Throw msg \<Rightarrow> Throw msg
     | Exit n \<Rightarrow> Exit n
     | Done updated1 \<Rightarrow>
         (case replaceRequired updated1 sha256_re (''$1'' @ digest @ ''$3'') ''sha256'' of
            Throw msg \<Rightarrow> Throw msg
          | Exit n \<Rightarrow> Exit n
          | Done updated \<Rightarrow>
              (case string_match updated url_re of
                 None \<Rightarrow> Throw ''Failed to find url in cask file''
               | Some urlLineMatch \<Rightarrow>
                   if \<not> str_includes (urlLineMatch ! 1) ''_universal.dmg''
                   then Throw ''Cask url does not point to a _universal.dmg asset''
                   else Done updated)))"

definition commitCaskUpdate :: "env \<Rightarrow> options \<Rightarrow> string \<Rightarrow> string \<Rightarrow> string \<Rightarrow> world
    \<Rightarrow> unit res \<times> world" where
  "commitCaskUpdate e opts caskFile original updated w =
    (let versionLine = match_line updated version_line_re;
         shaLine = match_line updated sha256_line_re
     in if updated = original
        then (Done (), log ''[ok] cask file already matches target version/sha256'' w)
        else if dryRun opts then
          (let oldVersionLine = match_line original version_line_re;
               oldShaLine = match_line original sha256_line_re
           in (Done (),
               log (''+ '' @ shaLine) (log (''- '' @ oldShaLine)
                 (log (''+ '' @ versionLine) (log (''- '' @ oldVersionLine)
                   (log ''[dry-run] cask changes preview:'' w))))))
        else
          andThen (writeFileSync caskFile updated w) (\<lambda>_ w1.
            (Done (),
             log (''[ok] '' @ shaLine) (log (''[ok] '' @ versionLine)
               (log (''[ok] updated cask: '' @ path_relative e (process_cwd e) caskFile) w1)))))"

definition updateCaskFile :: "env \<Rightarrow> string \<Rightarrow> string \<Rightarrow> options \<Rightarrow> world \<Rightarrow> unit res \<times> world" where
  "updateCaskFile e version digest opts w =
    (if skipCask opts then (Done (), log ''[skip] cask update'' w)
     else
       (let caskFile = path_resolve e [caskPath opts]
        in andThen (ensureFileExists caskFile ''Cask file'' w) (\<lambda>_ w1.
           andThen (readFileSync caskFile (logSection ''Update Homebrew Cask'' w1)) (\<lambda>original w2.
             case updateCaskContent version digest original of
               Throw msg \<Rightarrow> (Throw msg, w2)
             | Exit n \<Rightarrow> (Exit n, w2)
             | Done updated \<Rightarrow> commitCaskUpdate e opts caskFile original updated w2))))"

section \<open>Orchestrator\<close>

definition next_step_check :: string where
  "next_step_check =
    ''- '' @ [CHR 0xE6, CHR 0xA3, CHR 0x80, CHR 0xE6, CHR 0x9F, CHR 0xA5]
    @ '' Casks/cockpit-tools.rb diff''"

definition next_step_push :: string where
  "next_step_push =
    ''- '' @ [CHR 0xE6, CHR 0x8F, CHR 0x90, CHR 0xE4, CHR 0xBA, CHR 0xA4, CHR 0xE5, CHR 0xB9, CHR 0xB6]
    @ '' push cask '' @ [CHR 0xE6, CHR 0x9B, CHR 0xB4, CHR 0xE6, CHR 0x96, CHR 0xB0, CHR 0xEF, CHR 0xBC,
                         CHR 0x88, CHR 0xE5, CHR 0x9C, CHR 0xA8]
    @ '' Release '' @ [CHR 0xE8, CHR 0xB5, CHR 0x84, CHR 0xE4, CHR 0xBA, CHR 0xA7, CHR 0xE5, CHR 0xB7,
                       CHR 0xB2, CHR 0xE4, CHR 0xB8, CHR 0x8A, CHR 0xE4, CHR 0xBC, CHR 0xA0, CHR 0xE6,
                       CHR 0x88, CHR 0x90, CHR 0xE5, CHR 0x8A, CHR 0x9F, CHR 0xE5, CHR 0x90, CHR 0x8E,
                       CHR 0xEF, CHR 0xBC, CHR 0x89]"

text \<open>
  The two lines above are the UTF-8 bytes of the last two messages of \<^verbatim>\<open>main\<close>, which are
  not ASCII.
\<close>

definition main :: "env \<Rightarrow> string list \<Rightarrow> world \<Rightarrow> unit res \<times> world" where
  "main e argv w =
    andThen (parseArgs argv w) (\<lambda>opts w1.
    andThen (readPackageVersion e w1) (\<lambda>version w2.
      (let tagName = (if truthy (tag opts) then the (tag opts) else ''v'' @ version);
           w3 = log (''dry-run: '' @ (if dryRun opts then ''yes'' else ''no''))
                  (log (''repo: '' @ repo opts)
                  (log (''tag: '' @ tagName)
                  (log (''version: '' @ version)
                  (log ''Cockpit Tools GitHub Release + Homebrew cask publisher'' w2))))
       in andThen (buildUniversalIfNeeded e version opts w3) (\<lambda>_ w4.
          andThen (resolveSourceDmgPath e version opts (logSection ''Resolve Universal DMG'' w4))
            (\<lambda>sourceDmgPath w5.
          andThen (stageReleaseAsset e sourceDmgPath version opts
                     (log (''asset: '' @ sourceDmgPath) w5)) (\<lambda>staged w6.
          andThen (sha256 e (if dryRun opts then sourceDmgPath else fst staged)
                     (logSection ''Compute SHA256'' w6)) (\<lambda>digest w7.
          andThen (ensureGhAvailable e opts (log (''sha256: '' @ digest) w7)) (\<lambda>_ w8.
          andThen (uploadToGitHubRelease e tagName (repo opts) (fst staged) opts w8) (\<lambda>_ w9.
          andThen (updateCaskFile e version digest opts w9) (\<lambda>_ w10.
            (Done (),
             log next_step_push (log next_step_check
               (log ''Next steps (if not using --dry-run):'' (logSection ''Done'' w10))))))))))))))"

text \<open>
  The top level: \<^verbatim>\<open>try { main() } catch (error) { ... process.exit(1) }\<close>. The result is the
  exit status of the process.
\<close>

definition script :: "env \<Rightarrow> string list \<Rightarrow> world \<Rightarrow> nat \<times> world" where
  "script e argv w =
    (case main e argv w of
       (Done _, w') \<Rightarrow> (0, w')
     | (Throw msg, w') \<Rightarrow> (1, w'\<lparr>errors := errors w' @ [[CHR 0x0A] @ ''[ERROR] '' @ msg]\<rparr>)
     | (Exit n, w') \<Rightarrow> (n, w'))"

section \<open>Notions used to state the properties\<close>

text \<open>The options object that \<^const>\<open>runCommand\<close> hands to \<^verbatim>\<open>spawnSync\<close>.\<close>

definition spawn_options_of :: "env \<Rightarrow> run_options \<Rightarrow> spawn_options" where
  "spawn_options_of e ro =
    \<lparr>sp_cwd = (if truthy (ro_cwd ro) then the (ro_cwd ro) else process_cwd e),
     sp_stdio = (if truthy (ro_stdio ro) then the (ro_stdio ro) else ''inherit''),
     sp_shell = platform_win32 e\<rparr>"

text \<open>A call \<^verbatim>\<open>gh release <sub> ...\<close> in the history, and the number of such calls.\<close>

definition is_release_call :: "string \<Rightarrow> event \<Rightarrow> bool" where
  "is_release_call sub ev =
    (case ev of Spawn cmd args \<Rightarrow> cmd = ''gh'' \<and> take 2 args = [''release'', sub] | _ \<Rightarrow> False)"

definition release_calls :: "string \<Rightarrow> event list \<Rightarrow> nat" where
  "release_calls sub evs = length (filter (is_release_call sub) evs)"

text \<open>The argument list \<^verbatim>\<open>createArgs\<close> that \<^const>\<open>uploadToGitHubRelease\<close> builds.\<close>

definition createArgs_of :: "env \<Rightarrow> string \<Rightarrow> string \<Rightarrow> string \<Rightarrow> options \<Rightarrow> string list" where
  "createArgs_of e tagName repoName stagedPath opts =
     [''release'', ''create'', tagName, stagedPath, ''--repo'', repoName, ''--title'', tagName]
     @ (if draft opts then [''--draft''] else [])
     @ (if truthy (notesFile opts)
        then [''--notes-file'', path_resolve e [the (notesFile opts)]]
        else if generateNotes opts then [''--generate-notes'']
        else [''--notes'', ''Release '' @ tagName])"

text \<open>Calls that only inspect the file system.\<close>

definition read_only :: "event \<Rightarrow> bool" where
  "read_only ev = (case ev of ExistsSync _ \<Rightarrow> True | ReadFile _ \<Rightarrow> True | _ \<Rightarrow> False)"

text \<open>
  \<open>unchanged w w'\<close>: from \<open>w\<close> to \<open>w'\<close> no file and no directory changed, and every call
  made in between only inspected the file system (no \<^verbatim>\<open>mkdir\<close>, copy, write or spawn).
\<close>

definition unchanged :: "world \<Rightarrow> world \<Rightarrow> bool" where
  "unchanged w w' =
    (files w' = files w \<and> dirs w' = dirs w \<and> prefix (trace w) (trace w')
     \<and> list_all read_only (drop (length (trace w)) (trace w')))"

subsection \<open>A concrete environment and world\<close>

text \<open>
  A POSIX machine with the repository at \<^verbatim>\<open>/repo\<close>, a remote on which only the release
  \<^verbatim>\<open>v2.3.0\<close> exists, and a manifest for version 2.3.0. The theorems below are instantiated
  on it.
\<close>

definition sample_resolve :: "string list \<Rightarrow> string" where
  "sample_resolve segs =
    (let p = join_with ''/'' segs in if prefix ''/'' p then p else ''/repo/'' @ p)"

definition sample_spawn :: "string \<Rightarrow> string list \<Rightarrow> spawn_options
    \<Rightarrow> (string \<rightharpoonup> string) \<times> string set \<Rightarrow> spawn_result \<times> (string \<rightharpoonup> string) \<times> string set" where
  "sample_spawn cmd args so fsd =
    (if take 2 args = [''release'', ''view''] \<and> args ! 2 \<noteq> ''v2.3.0''
     then (\<lparr>error = None, status = Some 1, stdout = Some [], stderr = Some ''release not found''\<rparr>,
           fsd)
     else (\<lparr>error = None, status = Some 0, stdout = Some [], stderr = Some []\<rparr>, fsd))"

definition sample_env :: env where
  "sample_env =
    \<lparr>path_resolve = sample_resolve,
     path_join = join_with ''/'',
     path_relative = (\<lambda>from to. drop (Suc (length from)) to),
     process_cwd = ''/repo'',
     platform_win32 = False,
     spawnSync = sample_spawn,
     sha256_of = (\<lambda>s. word_of_nat (length s)),
     package_version = (\<lambda>text. Done (Some text))\<rparr>"

definition sample_manifest :: string where
  "sample_manifest =
    ''cask '' @ [dq] @ ''cockpit-tools'' @ [dq] @ '' do'' @ [CHR 0x0A]
    @ ''  version '' @ [dq] @ ''2.3.0'' @ [dq] @ [CHR 0x0A]
    @ ''  sha256 '' @ [dq] @ ''deadbeef'' @ [dq] @ [CHR 0x0A]
    @ ''  url '' @ [dq] @ ''https://example.com/App_universal.dmg'' @ [dq] @ [CHR 0x0A]
    @ ''end'' @ [CHR 0x0A]"

definition sample_dmg_path :: string where
  "sample_dmg_path =
    ''/repo/src-tauri/target/universal-apple-darwin/release/bundle/dmg/Cockpit Tools_2.3.1_universal.dmg''"

definition sample_world :: world where
  "sample_world =
    \<lparr>files = [''/repo/package.json'' \<mapsto> ''2.3.1'',
              sample_dmg_path \<mapsto> ''dmg bytes'',
              ''/repo/Casks/cockpit-tools.rb'' \<mapsto> sample_manifest],
     dirs = {},
     console = [],
     errors = [],
     trace = []\<rparr>"






subsection \<open>Argument lists, item by item\<close>

text \<open>
  An argument list read from the left, one item at a time: a switch, an option with the
  token that follows it, a token that is no option at all, or an option that stands last
  and has no token after it. The two help flags are not items: a list of items is an
  argument list in which no help flag stands where an option is expected.
\<close>

datatype cli_item =
    F_skip_build | F_skip_gh | F_skip_cask | F_dry_run | F_draft | F_generate_notes
  | F_notes_file string | F_tag string | F_repo string | F_cask string | F_asset_path string
  | F_unknown string
  | F_missing string

definition value_flags :: "string list" where
  "value_flags = [''--notes-file'', ''--tag'', ''--repo'', ''--cask'', ''--asset-path'']"

definition flag_tokens :: "string list" where
  "flag_tokens =
    [''--skip-build'', ''--skip-gh'', ''--skip-cask'', ''--dry-run'', ''--draft'',
     ''--generate-notes'', ''--notes-file'', ''--tag'', ''--repo'', ''--cask'', ''--asset-path'',
     ''-h'', ''--help'']"

fun item_tokens :: "cli_item \<Rightarrow> string list" where
  "item_tokens F_skip_build = [''--skip-build'']"
| "item_tokens F_skip_gh = [''--skip-gh'']"
| "item_tokens F_skip_cask = [''--skip-cask'']"
| "item_tokens F_dry_run = [''--dry-run'']"
| "item_tokens F_draft = [''--draft'']"
| "item_tokens F_generate_notes = [''--generate-notes'']"
| "item_tokens (F_notes_file v) = [''--notes-file'', v]"
| "item_tokens (F_tag v) = [''--tag'', v]"
| "item_tokens (F_repo v) = [''--repo'', v]"
| "item_tokens (F_cask v) = [''--cask'', v]"
| "item_tokens (F_asset_path v) = [''--asset-path'', v]"
| "item_tokens (F_unknown t) = [t]"
| "item_tokens (F_missing f) = [f]"

definition render :: "cli_item list \<Rightarrow> string list" where
  "render items = concat (map item_tokens items)"

fun well_formed :: "cli_item list \<Rightarrow> bool" where
  "well_formed [] = True"
| "well_formed (F_unknown t # items) = (t \<notin> set flag_tokens \<and> well_formed items)"
| "well_formed (F_missing f # items) = (f \<in> set value_flags \<and> items = [])"
| "well_formed (_ # items) = well_formed items"

text \<open>The error an item is expected to raise, if any, and its effect on the options.\<close>

fun item_error :: "cli_item \<Rightarrow> string option" where
  "item_error (F_notes_file v) = (if v = [] then Some ''Missing value for --notes-file'' else None)"
| "item_error (F_tag v) = (if v = [] then Some ''Missing value for --tag'' else None)"
| "item_error (F_repo v) = (if v = [] then Some ''Missing value for --repo'' else None)"
| "item_error (F_cask v) = (if v = [] then Some ''Missing value for --cask'' else None)"
| "item_error (F_asset_path v) = (if v = [] then Some ''Missing value for --asset-path'' else None)"
| "item_error (F_unknown t) = Some (''Unknown argument: '' @ t)"
| "item_error (F_missing f) = Some (''Missing value for '' @ f)"
| "item_error _ = None"

fun apply_item :: "options \<Rightarrow> cli_item \<Rightarrow> options" where
  "apply_item opts F_skip_build = opts\<lparr>skipBuild := True\<rparr>"
| "apply_item opts F_skip_gh = opts\<lparr>skipGh := True\<rparr>"
| "apply_item opts F_skip_cask = opts\<lparr>skipCask := True\<rparr>"
| "apply_item opts F_dry_run = opts\<lparr>dryRun := True\<rparr>"
| "apply_item opts F_draft = opts\<lparr>draft := True\<rparr>"
| "apply_item opts F_generate_notes = opts\<lparr>generateNotes := True\<rparr>"
| "apply_item opts (F_notes_file v) = opts\<lparr>notesFile := Some v\<rparr>"
| "apply_item opts (F_tag v) = opts\<lparr>tag := Some v\<rparr>"
| "apply_item opts (F_repo v) = opts\<lparr>repo := v\<rparr>"
| "apply_item opts (F_cask v) = opts\<lparr>caskPath := v\<rparr>"
| "apply_item opts (F_asset_path v) = opts\<lparr>assetPath := Some v\<rparr>"
| "apply_item opts (F_unknown t) = opts"
| "apply_item opts (F_missing f) = opts"

definition valid_item :: "cli_item \<Rightarrow> bool" where
  "valid_item i = (item_error i = None)"

text \<open>A configuration with no missing field: no field holds an empty string.\<close>

definition complete :: "options \<Rightarrow> bool" where
  "complete opts =
    (repo opts \<noteq> [] \<and> caskPath opts \<noteq> [] \<and> notesFile opts \<noteq> Some [] \<and> tag opts \<noteq> Some []
     \<and> assetPath opts \<noteq> Some [])"

fun first_error :: "cli_item list \<Rightarrow> string option" where
  "first_error [] = None"
| "first_error (i # items) =
    (case item_error i of Some msg \<Rightarrow> Some msg | None \<Rightarrow> first_error items)"

definition both_notes :: "cli_item list \<Rightarrow> bool" where
  "both_notes items = ((\<exists>v. F_notes_file v \<in> set items) \<and> F_generate_notes \<in> set items)"

text \<open>Console lines that preview a \<^verbatim>\<open>gh release create\<close> or \<^verbatim>\<open>gh release upload\<close> command.\<close>

definition previews_create :: "string \<Rightarrow> bool" where
  "previews_create line = prefix ''$ gh release create'' line"

definition previews_upload :: "string \<Rightarrow> bool" where
  "previews_upload line = prefix ''$ gh release upload'' line"

text \<open>
  The paths the orchestrator works with: the source artifact that
  \<^const>\<open>resolveSourceDmgPath\<close> looks for, the label it is reported under, the staged copy of
  \<^const>\<open>stageReleaseAsset\<close>, and the build command.
\<close>

definition source_path_of :: "env \<Rightarrow> string \<Rightarrow> options \<Rightarrow> string" where
  "source_path_of e version opts =
    (if truthy (assetPath opts) then path_resolve e [the (assetPath opts)]
     else path_resolve e
            [''src-tauri'', ''target'', DEFAULT_TARGET, ''release'', ''bundle'', ''dmg'',
             ''Cockpit Tools_'' @ version @ ''_universal.dmg''])"

definition source_label :: "options \<Rightarrow> string" where
  "source_label opts = (if truthy (assetPath opts) then ''Asset'' else ''Universal DMG'')"

definition staged_path_of :: "env \<Rightarrow> string \<Rightarrow> string" where
  "staged_path_of e version =
    path_join e [path_resolve e [''release-artifacts''],
                 DEFAULT_RELEASE_ASSET_PREFIX @ ''_'' @ version @ ''_universal.dmg'']"

definition build_events :: "options \<Rightarrow> event list" where
  "build_events opts =
    (if skipBuild opts then []
     else [Spawn ''npm'' [''run'', ''tauri'', ''build'', ''--'', ''--target'', DEFAULT_TARGET]])"

definition copy_events :: "env \<Rightarrow> string \<Rightarrow> string \<Rightarrow> event list" where
  "copy_events e src staged =
    (if path_resolve e [src] \<noteq> path_resolve e [staged] then [CopyFile src staged] else [])"

definition cask_events :: "env \<Rightarrow> options \<Rightarrow> event list" where
  "cask_events e opts =
    (if skipCask opts then []
     else [ExistsSync (path_resolve e [caskPath opts]), ReadFile (path_resolve e [caskPath opts])])"

subsection \<open>Fields of the manifest\<close>





text \<open>
  No match of the atoms \<open>rs\<close> starts inside the segment \<open>seg\<close>, which stands after the text
  \<open>pre\<close> and before the text \<open>rest\<close>.
\<close>

definition no_match_in :: "atom list \<Rightarrow> string \<Rightarrow> string \<Rightarrow> string \<Rightarrow> bool" where
  "no_match_in rs pre seg rest =
    (\<forall>a b. seg = a @ b \<and> b \<noteq> [] \<longrightarrow> \<not> (at_line_start (pre @ a) \<and> bt rs (b @ rest) \<noteq> None))"

text \<open>
  The versions and digests of the specification's data model: a version is a non-empty
  string of the characters of semantic versions, a digest a non-empty string of
  hexadecimal digits. A plain version is a non-empty string without double quote, dollar
  sign or line terminator; every version of the data model is one.
\<close>

definition semver_char :: "char \<Rightarrow> bool" where
  "semver_char c = (c \<in> set ''0123456789abcdefghijklmnopqrstuvwxyzABCDEFGHIJKLMNOPQRSTUVWXYZ.-+'')"

definition is_version :: "string \<Rightarrow> bool" where
  "is_version v = (v \<noteq> [] \<and> list_all semver_char v)"

definition plain_char :: "char \<Rightarrow> bool" where
  "plain_char c = (c \<noteq> dq \<and> c \<noteq> CHR ''$'' \<and> \<not> is_line_terminator c)"

definition plain_version :: "string \<Rightarrow> bool" where
  "plain_version v = (v \<noteq> [] \<and> list_all plain_char v)"

definition is_digest :: "string \<Rightarrow> bool" where
  "is_digest d = (d \<noteq> [] \<and> list_all is_hex d)"


subsection \<open>Reading a hexadecimal string\<close>

text \<open>
  The value of a lowercase hexadecimal digit is its position in \<^verbatim>\<open>0123456789abcdef\<close>; a
  string of digits is read as a number in base 16, most significant digit first.
\<close>

definition hex_value :: "char \<Rightarrow> nat" where
  "hex_value c = length (takeWhile (\<lambda>x. x \<noteq> c) ''0123456789abcdef'')"

definition hex_decode :: "string \<Rightarrow> nat" where
  "hex_decode s = foldl (\<lambda>a c. 16 * a + hex_value c) 0 s"

section \<open>Properties\<close>

subsection \<open>Basic facts\<close>


lemma log_fields [simp]:
  "files (log l w) = files w" "dirs (log l w) = dirs w" "trace (log l w) = trace w"
  "errors (log l w) = errors w" "console (log l w) = console w @ [l]"
  by (simp_all add: log_def)

lemma logSection_fields [simp]:
  "files (logSection t w) = files w" "dirs (logSection t w) = dirs w"
  "trace (logSection t w) = trace w" "errors (logSection t w) = errors w"
  "console (logSection t w) = console w @ [[CHR 0x0A] @ ''=== '' @ t @ '' ==='']"
  by (simp_all add: logSection_def)

lemma record_event_fields [simp]:
  "files (record_event ev w) = files w" "dirs (record_event ev w) = dirs w"
  "trace (record_event ev w) = trace w @ [ev]" "errors (record_event ev w) = errors w"
  "console (record_event ev w) = console w"
  by (simp_all add: record_event_def)

lemma runCommand_dry:
  "ro_dryRun ro \<Longrightarrow> runCommand e cmd args ro w =
     (Done dry_result,
      log ''[dry-run] skipped''
        (log (''cwd: '' @ sp_cwd (spawn_options_of e ro)) (log (''$ '' @ formatCommand cmd args) w)))"
  by (simp add: runCommand_def Let_def spawn_options_of_def)

lemma runCommand_real:
  assumes "\<not> ro_dryRun ro"
    and "spawnSync e cmd args (spawn_options_of e ro) (files w, dirs w) = (result, fs, ds)"
  shows "runCommand e cmd args ro w =
     ((case error result of
         Some err \<Rightarrow> if ro_allowFailure ro then Done result else Throw err
       | None \<Rightarrow>
          (case status result of
             Some n \<Rightarrow> if n \<noteq> 0 \<and> \<not> ro_allowFailure ro
                       then Throw (''Command failed (exit='' @ show_int n @ ''): '' @ formatCommand cmd args)
                       else Done result
           | None \<Rightarrow> Done result)),
      record_event (Spawn cmd args)
        ((log (''cwd: '' @ sp_cwd (spawn_options_of e ro)) (log (''$ '' @ formatCommand cmd args) w))
           \<lparr>files := fs, dirs := ds\<rparr>))"
  using assms
  by (simp add: runCommand_def Let_def spawn_options_of_def split: option.splits)

lemma runCommand_real_trace:
  "\<not> ro_dryRun ro \<Longrightarrow> trace (snd (runCommand e cmd args ro w)) = trace w @ [Spawn cmd args]"
  by (cases "spawnSync e cmd args (spawn_options_of e ro) (files w, dirs w)")
     (simp add: runCommand_real)

lemma snd_andThen_unit [simp]: "snd (andThen m (\<lambda>_ w. (Done (), w))) = snd m"
  by (cases m; cases "fst m") (auto simp: andThen_def)

lemma andThen_Done [simp]: "andThen (Done x, w) f = f x w"
  and andThen_Throw [simp]: "andThen (Throw msg, w) f = (Throw msg, w)"
  and andThen_Exit [simp]: "andThen (Exit n, w) f = (Exit n, w)"
  by (simp_all add: andThen_def)

lemma ghReleaseExists_real:
  assumes "\<not> dryRun opts"
    and "spawnSync e ''gh'' [''release'', ''view'', t, ''--repo'', r]
           \<lparr>sp_cwd = process_cwd e, sp_stdio = ''pipe'', sp_shell = platform_win32 e\<rparr>
           (files w, dirs w) = (view, fs, ds)"
  shows "fst (ghReleaseExists e t r opts w) = Done (status view = Some 0)"
    and "trace (snd (ghReleaseExists e t r opts w))
           = trace w @ [Spawn ''gh'' [''release'', ''view'', t, ''--repo'', r]]"
    and "files (snd (ghReleaseExists e t r opts w)) = fs"
    and "dirs (snd (ghReleaseExists e t r opts w)) = ds"
proof -
  let ?ro = "\<lparr>ro_cwd = None, ro_stdio = Some ''pipe'', ro_dryRun = False, ro_allowFailure = True\<rparr>"
  have so: "spawn_options_of e ?ro
      = \<lparr>sp_cwd = process_cwd e, sp_stdio = ''pipe'', sp_shell = platform_win32 e\<rparr>"
    by (simp add: spawn_options_of_def truthy_def)
  have rc: "runCommand e ''gh'' [''release'', ''view'', t, ''--repo'', r] ?ro w =
     (Done view, record_event (Spawn ''gh'' [''release'', ''view'', t, ''--repo'', r])
        ((log (''cwd: '' @ process_cwd e)
           (log (''$ '' @ formatCommand ''gh'' [''release'', ''view'', t, ''--repo'', r]) w))
           \<lparr>files := fs, dirs := ds\<rparr>))"
    using assms by (subst runCommand_real [where result = view and fs = fs and ds = ds])
      (simp_all add: spawn_options_of_def truthy_def split: option.splits)
  show "fst (ghReleaseExists e t r opts w) = Done (status view = Some 0)"
    using assms(1) by (simp add: ghReleaseExists_def rc Let_def)
  show "trace (snd (ghReleaseExists e t r opts w))
           = trace w @ [Spawn ''gh'' [''release'', ''view'', t, ''--repo'', r]]"
    using assms(1) by (simp add: ghReleaseExists_def rc Let_def)
  show "files (snd (ghReleaseExists e t r opts w)) = fs"
    using assms(1) by (simp add: ghReleaseExists_def rc Let_def)
  show "dirs (snd (ghReleaseExists e t r opts w)) = ds"
    using assms(1) by (simp add: ghReleaseExists_def rc Let_def)
qed

lemma ghReleaseExists_never_throws:
  "\<exists>b. fst (ghReleaseExists e t r opts w) = Done b"
proof (cases "dryRun opts")
  case True
  then show ?thesis by (auto simp add: ghReleaseExists_def runCommand_dry)
next
  case False
  obtain view fs ds where "spawnSync e ''gh'' [''release'', ''view'', t, ''--repo'', r]
           \<lparr>sp_cwd = process_cwd e, sp_stdio = ''pipe'', sp_shell = platform_win32 e\<rparr>
           (files w, dirs w) = (view, fs, ds)"
    by (metis prod_cases3)
  from ghReleaseExists_real(1) [OF False this] show ?thesis by blast
qed

subsection \<open>The concrete environment\<close>


lemma sample_env_fields:
  "path_resolve sample_env = sample_resolve"
  "path_join sample_env = join_with ''/''"
  "process_cwd sample_env = ''/repo''"
  "platform_win32 sample_env = False"
  "spawnSync sample_env = sample_spawn"
  "sha256_of sample_env s = word_of_nat (length s)"
  "package_version sample_env text = Done (Some text)"
  by (simp_all add: sample_env_def)

lemma sample_world_fields:
  "files sample_world =
     [''/repo/package.json'' \<mapsto> ''2.3.1'', sample_dmg_path \<mapsto> ''dmg bytes'',
      ''/repo/Casks/cockpit-tools.rb'' \<mapsto> sample_manifest]"
  "dirs sample_world = {}" "console sample_world = []" "trace sample_world = []"
  by (simp_all add: sample_world_def)

lemma sample_paths:
  "sample_resolve [''package.json''] = ''/repo/package.json''"
  "sample_resolve [''release-artifacts''] = ''/repo/release-artifacts''"
  "sample_resolve [''src-tauri'', ''target'', DEFAULT_TARGET, ''release'', ''bundle'', ''dmg'',
             ''Cockpit Tools_'' @ ''2.3.1'' @ ''_universal.dmg''] = sample_dmg_path"
  "sample_resolve [DEFAULT_CASK_PATH] = ''/repo/Casks/cockpit-tools.rb''"
  "sample_resolve [sample_dmg_path] = sample_dmg_path"
  "sample_resolve [''/repo/release-artifacts/Cockpit.Tools_2.3.1_universal.dmg'']
     = ''/repo/release-artifacts/Cockpit.Tools_2.3.1_universal.dmg''"
  by (simp_all add: sample_resolve_def sample_dmg_path_def DEFAULT_TARGET_def DEFAULT_CASK_PATH_def)

lemma sample_files:
  "files sample_world ''/repo/package.json'' = Some ''2.3.1''"
  "files sample_world sample_dmg_path = Some ''dmg bytes''"
  "files sample_world ''/repo/Casks/cockpit-tools.rb'' = Some sample_manifest"
  "files sample_world ''/repo/release-artifacts'' = None"
  by (simp_all add: sample_world_fields sample_dmg_path_def)

subsection \<open>Argument resolver\<close>

lemma parseLoop_item:
  assumes "\<And>t. i = F_unknown t \<Longrightarrow> t \<notin> set flag_tokens"
    and "\<And>f. i = F_missing f \<Longrightarrow> f \<in> set value_flags \<and> rest = []"
  shows "parseLoop (item_tokens i @ rest) opts w =
     (case item_error i of
        Some msg \<Rightarrow> (Throw msg, w)
      | None \<Rightarrow> parseLoop rest (apply_item opts i) w)"
proof (cases i)
  case (F_unknown t)
  with assms(1) have "t \<notin> set flag_tokens" by simp
  then show ?thesis using F_unknown by (simp add: flag_tokens_def)
next
  case (F_missing f)
  with assms(2) have "f \<in> set value_flags" "rest = []" by simp_all
  then show ?thesis using F_missing
    by (auto simp: value_flags_def requireValue_def shift_def truthy_def)
qed (simp_all add: requireValue_def shift_def truthy_def)

lemma parseLoop_valid_items:
  "\<forall>i \<in> set items. valid_item i \<Longrightarrow>
     parseLoop (render items @ rest) opts w = parseLoop rest (foldl apply_item opts items) w"
proof (induction items arbitrary: opts)
  case Nil
  then show ?case by (simp add: render_def)
next
  case (Cons i items)
  then have v: "item_error i = None" by (simp add: valid_item_def)
  then have "parseLoop (item_tokens i @ (render items @ rest)) opts w
      = parseLoop (render items @ rest) (apply_item opts i) w"
    by (subst parseLoop_item) auto
  then show ?case using Cons by (simp add: render_def)
qed

lemma parseLoop_render:
  "well_formed items \<Longrightarrow>
     parseLoop (render items) opts w =
       (case first_error items of
          Some msg \<Rightarrow> (Throw msg, w)
        | None \<Rightarrow> (Done (foldl apply_item opts items), w))"
proof (induction items arbitrary: opts)
  case Nil
  then show ?case by (simp add: render_def)
next
  case (Cons i items)
  have wf: "well_formed items \<or> (\<exists>f. i = F_missing f)"
    using Cons.prems by (cases i) auto
  have a: "\<And>t. i = F_unknown t \<Longrightarrow> t \<notin> set flag_tokens"
    using Cons.prems by auto
  have b: "\<And>f. i = F_missing f \<Longrightarrow> f \<in> set value_flags \<and> render items = []"
    using Cons.prems by (auto simp: render_def)
  have "parseLoop (item_tokens i @ render items) opts w =
     (case item_error i of
        Some msg \<Rightarrow> (Throw msg, w)
      | None \<Rightarrow> parseLoop (render items) (apply_item opts i) w)"
    by (rule parseLoop_item [OF a b])
  then show ?case using Cons.IH wf
    by (auto simp: render_def split: option.splits)
qed

lemma first_error_None: "first_error items = None \<longleftrightarrow> (\<forall>i \<in> set items. valid_item i)"
  by (induction items) (auto simp: valid_item_def split: option.splits)

lemma valid_items_well_formed: "\<forall>i \<in> set items. valid_item i \<Longrightarrow> well_formed items"
proof (induction items)
  case (Cons i items)
  then show ?case by (cases i) (auto simp: valid_item_def)
qed simp

lemma generateNotes_foldl:
  "generateNotes (foldl apply_item opts items)
     = (generateNotes opts \<or> F_generate_notes \<in> set items)"
proof (induction items arbitrary: opts)
  case (Cons i items)
  then show ?case by (cases i) auto
qed simp

lemma notesFile_foldl_absent:
  "\<forall>v. F_notes_file v \<notin> set items \<Longrightarrow> notesFile (foldl apply_item opts items) = notesFile opts"
proof (induction items arbitrary: opts)
  case (Cons i items)
  then show ?case by (cases i) auto
qed simp

lemma notesFile_foldl_truthy:
  "\<forall>i \<in> set items. valid_item i \<Longrightarrow> truthy (notesFile opts) \<or> (\<exists>v. F_notes_file v \<in> set items)
     \<Longrightarrow> truthy (notesFile (foldl apply_item opts items))"
proof (induction items arbitrary: opts)
  case (Cons i items)
  show ?case
  proof (cases i)
    case (F_notes_file v)
    with Cons.prems have "v \<noteq> []" by (auto simp: valid_item_def split: if_splits)
    with F_notes_file Cons show ?thesis by (simp add: truthy_def)
  qed (use Cons in auto)
qed simp

lemma complete_foldl:
  "\<forall>i \<in> set items. valid_item i \<Longrightarrow> complete opts \<Longrightarrow> complete (foldl apply_item opts items)"
proof (induction items arbitrary: opts)
  case (Cons i items)
  have "complete (apply_item opts i)"
    using Cons.prems by (cases i) (auto simp: complete_def valid_item_def split: if_splits)
  with Cons show ?case by simp
qed simp

lemma complete_default: "complete default_options"
  by (simp add: complete_def default_options_def DEFAULT_REPO_def DEFAULT_CASK_PATH_def)

lemma flag_cases:
  assumes "token \<in> set flag_tokens"
  obtains "token = ''--skip-build''" | "token = ''--skip-gh''" | "token = ''--skip-cask''"
    | "token = ''--dry-run''" | "token = ''--draft''" | "token = ''--generate-notes''"
    | "token \<in> set value_flags" | "token = ''-h'' \<or> token = ''--help''"
proof -
  have "token = ''--skip-build'' \<or> token = ''--skip-gh'' \<or> token = ''--skip-cask''
    \<or> token = ''--dry-run'' \<or> token = ''--draft'' \<or> token = ''--generate-notes''
    \<or> token = ''--notes-file'' \<or> token = ''--tag'' \<or> token = ''--repo'' \<or> token = ''--cask''
    \<or> token = ''--asset-path'' \<or> token = ''-h'' \<or> token = ''--help''"
    using assms unfolding flag_tokens_def by (simp only: list.set insert_iff empty_iff simp_thms)
  moreover have "token \<in> set value_flags \<longleftrightarrow> token = ''--notes-file'' \<or> token = ''--tag'' \<or> token = ''--repo'' \<or> token = ''--cask''
    \<or> token = ''--asset-path''"
    unfolding value_flags_def by (simp only: list.set insert_iff empty_iff simp_thms)
  ultimately show ?thesis using that by argo
qed

lemma value_flag_cases:
  assumes "f \<in> set value_flags"
  obtains "f = ''--notes-file''" | "f = ''--tag''" | "f = ''--repo''" | "f = ''--cask''"
    | "f = ''--asset-path''"
proof -
  have "f = ''--notes-file'' \<or> f = ''--tag'' \<or> f = ''--repo'' \<or> f = ''--cask''
    \<or> f = ''--asset-path''"
    using assms unfolding value_flags_def by (simp only: list.set insert_iff empty_iff simp_thms)
  then show ?thesis using that by argo
qed

lemma parseLoop_value_flag:
  assumes "f \<in> set value_flags"
  shows "parseLoop [f] opts w = (Throw (''Missing value for '' @ f), w)"
    and "parseLoop (f # [] # rest) opts w = (Throw (''Missing value for '' @ f), w)"
    and "v \<noteq> [] \<Longrightarrow> \<exists>opts'. parseLoop (f # v # rest) opts w = parseLoop rest opts' w"
proof -
  show "parseLoop [f] opts w = (Throw (''Missing value for '' @ f), w)"
    using assms by (cases rule: value_flag_cases) (simp_all add: requireValue_def shift_def truthy_def)
  show "parseLoop (f # [] # rest) opts w = (Throw (''Missing value for '' @ f), w)"
    using assms by (cases rule: value_flag_cases) (simp_all add: requireValue_def shift_def truthy_def)
  show "\<exists>opts'. parseLoop (f # v # rest) opts w = parseLoop rest opts' w" if "v \<noteq> []"
    using assms
  proof (cases rule: value_flag_cases)
    case 1
    with that have "parseLoop (f # v # rest) opts w = parseLoop rest (opts\<lparr>notesFile := Some v\<rparr>) w"
      by (simp add: requireValue_def shift_def truthy_def)
    then show ?thesis ..
  next
    case 2
    with that have "parseLoop (f # v # rest) opts w = parseLoop rest (opts\<lparr>tag := Some v\<rparr>) w"
      by (simp add: requireValue_def shift_def truthy_def)
    then show ?thesis ..
  next
    case 3
    with that have "parseLoop (f # v # rest) opts w = parseLoop rest (opts\<lparr>repo := v\<rparr>) w"
      by (simp add: requireValue_def shift_def truthy_def)
    then show ?thesis ..
  next
    case 4
    with that have "parseLoop (f # v # rest) opts w = parseLoop rest (opts\<lparr>caskPath := v\<rparr>) w"
      by (simp add: requireValue_def shift_def truthy_def)
    then show ?thesis ..
  next
    case 5
    with that have "parseLoop (f # v # rest) opts w = parseLoop rest (opts\<lparr>assetPath := Some v\<rparr>) w"
      by (simp add: requireValue_def shift_def truthy_def)
    then show ?thesis ..
  qed
qed

lemma parseLoop_head:
  "(\<exists>opts'. parseLoop (token # args) opts w = parseLoop args opts' w)
   \<or> (\<exists>opts' v rest. args = v # rest \<and> parseLoop (token # args) opts w = parseLoop rest opts' w)
   \<or> (\<exists>msg. parseLoop (token # args) opts w = (Throw msg, w))
   \<or> parseLoop (token # args) opts w = (Exit 0, printHelp w)"
proof (cases "token \<in> set flag_tokens")
  case False
  then have "parseLoop (token # args) opts w = (Throw (''Unknown argument: '' @ token), w)"
    by (simp add: flag_tokens_def)
  then show ?thesis by blast
next
  case True
  then show ?thesis
  proof (cases rule: flag_cases)
    case 1
    then have "parseLoop (token # args) opts w = parseLoop args (opts\<lparr>skipBuild := True\<rparr>) w"
      by simp
    then show ?thesis by blast
  next
    case 2
    then have "parseLoop (token # args) opts w = parseLoop args (opts\<lparr>skipGh := True\<rparr>) w"
      by simp
    then show ?thesis by blast
  next
    case 3
    then have "parseLoop (token # args) opts w = parseLoop args (opts\<lparr>skipCask := True\<rparr>) w"
      by simp
    then show ?thesis by blast
  next
    case 4
    then have "parseLoop (token # args) opts w = parseLoop args (opts\<lparr>dryRun := True\<rparr>) w"
      by simp
    then show ?thesis by blast
  next
    case 5
    then have "parseLoop (token # args) opts w = parseLoop args (opts\<lparr>draft := True\<rparr>) w"
      by simp
    then show ?thesis by blast
  next
    case 6
    then have "parseLoop (token # args) opts w = parseLoop args (opts\<lparr>generateNotes := True\<rparr>) w"
      by simp
    then show ?thesis by blast
  next
    case 7
    show ?thesis
    proof (cases args)
      case Nil
      have "parseLoop (token # args) opts w = (Throw (''Missing value for '' @ token), w)"
        unfolding Nil by (rule parseLoop_value_flag(1) [OF 7])
      then show ?thesis by blast
    next
      case (Cons v rest)
      show ?thesis
      proof (cases "v = []")
        case True
        have "parseLoop (token # args) opts w = (Throw (''Missing value for '' @ token), w)"
          unfolding Cons True by (rule parseLoop_value_flag(2) [OF 7])
        then show ?thesis by blast
      next
        case False
        from parseLoop_value_flag(3) [OF 7 False]
        obtain opts' where "parseLoop (token # v # rest) opts w = parseLoop rest opts' w"
          by blast
        then have "args = v # rest \<and> parseLoop (token # args) opts w = parseLoop rest opts' w"
          using Cons by simp
        then show ?thesis by blast
      qed
    qed
  next
    case 8
    then have "parseLoop (token # args) opts w = (Exit 0, printHelp w)"
      by (elim disjE) simp_all
    then show ?thesis by blast
  qed
qed

lemma parseLoop_outcome:
  "(\<exists>opts'. parseLoop args opts w = (Done opts', w))
   \<or> (\<exists>msg. parseLoop args opts w = (Throw msg, w))
   \<or> parseLoop args opts w = (Exit 0, printHelp w)"
proof (induction "length args" arbitrary: args opts rule: less_induct)
  case less
  show ?case
  proof (cases args)
    case Nil
    then show ?thesis by simp
  next
    case (Cons token rest)
    from parseLoop_head [of token rest opts w]
    consider (same) opts' where "parseLoop (token # rest) opts w = parseLoop rest opts' w"
      | (skip) opts' v rest' where "rest = v # rest'"
          "parseLoop (token # rest) opts w = parseLoop rest' opts' w"
      | (throw) msg where "parseLoop (token # rest) opts w = (Throw msg, w)"
      | (usage) "parseLoop (token # rest) opts w = (Exit 0, printHelp w)"
      by blast
    then show ?thesis
    proof cases
      case same
      have "length rest < length args" using Cons by simp
      from less [OF this, of opts'] show ?thesis unfolding Cons same .
    next
      case skip
      have "length rest' < length args" using Cons skip(1) by simp
      from less [OF this, of opts'] show ?thesis unfolding Cons skip(2) .
    next
      case throw
      then show ?thesis unfolding Cons by blast
    next
      case usage
      then show ?thesis unfolding Cons by blast
    qed
  qed
qed

lemma parseArgs_outcome:
  "(\<exists>opts'. parseArgs args w = (Done opts', w))
   \<or> (\<exists>msg. parseArgs args w = (Throw msg, w))
   \<or> parseArgs args w = (Exit 0, printHelp w)"
proof -
  from parseLoop_outcome [of args default_options w]
  consider (fin) opts' where "parseLoop args default_options w = (Done opts', w)"
    | (throw) msg where "parseLoop args default_options w = (Throw msg, w)"
    | (usage) "parseLoop args default_options w = (Exit 0, printHelp w)"
    by blast
  then show ?thesis
  proof cases
    case fin
    then show ?thesis
      by (cases "truthy (notesFile opts') \<and> generateNotes opts'") (simp_all add: parseArgs_def)
  next
    case throw
    then show ?thesis by (simp add: parseArgs_def)
  next
    case usage
    then show ?thesis by (simp add: parseArgs_def)
  qed
qed

lemma parseArgs_Done_world: "parseArgs args w = (Done opts, w') \<Longrightarrow> w' = w"
  using parseArgs_outcome [of args w] by auto

subsection \<open>Release publisher\<close>

lemma upload_release_trace:
  assumes "\<not> dryRun opts" and "\<not> skipGh opts"
    and "spawnSync e ''gh'' [''release'', ''view'', t, ''--repo'', r]
           \<lparr>sp_cwd = process_cwd e, sp_stdio = ''pipe'', sp_shell = platform_win32 e\<rparr>
           (files w, dirs w) = (view, fs, ds)"
    and "uploadToGitHubRelease e t r stagedPath opts w = (res, w')"
  shows "\<exists>b. fst (ghReleaseExists e t r opts (logSection ''GitHub Release Upload'' w)) = Done b"
    and "status view = Some 0 \<longrightarrow>
           trace w' = trace w @
             [Spawn ''gh'' [''release'', ''view'', t, ''--repo'', r],
              Spawn ''gh'' [''release'', ''upload'', t, stagedPath, ''--repo'', r, ''--clobber'']]
           \<and> release_calls ''upload'' (drop (length (trace w)) (trace w')) = 1
           \<and> release_calls ''create'' (drop (length (trace w)) (trace w')) = 0"
    and "status view \<noteq> Some 0 \<longrightarrow>
           trace w' = trace w @
             [Spawn ''gh'' [''release'', ''view'', t, ''--repo'', r],
              Spawn ''gh'' (createArgs_of e t r stagedPath opts)]
           \<and> release_calls ''create'' (drop (length (trace w)) (trace w')) = 1
           \<and> release_calls ''upload'' (drop (length (trace w)) (trace w')) = 0"
proof -
  let ?w0 = "logSection ''GitHub Release Upload'' w"
  have sp: "spawnSync e ''gh'' [''release'', ''view'', t, ''--repo'', r]
           \<lparr>sp_cwd = process_cwd e, sp_stdio = ''pipe'', sp_shell = platform_win32 e\<rparr>
           (files ?w0, dirs ?w0) = (view, fs, ds)"
    using assms(3) by simp
  note gh = ghReleaseExists_real [OF assms(1) sp]
  obtain w1 where g: "ghReleaseExists e t r opts ?w0 = (Done (status view = Some 0), w1)"
    and tr1: "trace w1 = trace w @ [Spawn ''gh'' [''release'', ''view'', t, ''--repo'', r]]"
    using gh(1,2) by (cases "ghReleaseExists e t r opts ?w0") auto
  show "\<exists>b. fst (ghReleaseExists e t r opts ?w0) = Done b"
    by (rule ghReleaseExists_never_throws)
  have w': "w' = snd (uploadToGitHubRelease e t r stagedPath opts w)"
    using assms(4) by simp
  show "status view = Some 0 \<longrightarrow>
           trace w' = trace w @
             [Spawn ''gh'' [''release'', ''view'', t, ''--repo'', r],
              Spawn ''gh'' [''release'', ''upload'', t, stagedPath, ''--repo'', r, ''--clobber'']]
           \<and> release_calls ''upload'' (drop (length (trace w)) (trace w')) = 1
           \<and> release_calls ''create'' (drop (length (trace w)) (trace w')) = 0"
    using assms(1,2) tr1
    by (simp add: w' uploadToGitHubRelease_def g runCommand_real_trace run_defaults_def
        release_calls_def is_release_call_def)
  show "status view \<noteq> Some 0 \<longrightarrow>
           trace w' = trace w @
             [Spawn ''gh'' [''release'', ''view'', t, ''--repo'', r],
              Spawn ''gh'' (createArgs_of e t r stagedPath opts)]
           \<and> release_calls ''create'' (drop (length (trace w)) (trace w')) = 1
           \<and> release_calls ''upload'' (drop (length (trace w)) (trace w')) = 0"
    using assms(1,2) tr1
    by (simp add: w' uploadToGitHubRelease_def g runCommand_real_trace run_defaults_def
        release_calls_def is_release_call_def createArgs_of_def Let_def)
qed

text \<open>
  Claim C2. In a run that is not a dry run and does not skip the publisher: when
  \<^verbatim>\<open>gh release view\<close> exits with status 0, \<^const>\<open>uploadToGitHubRelease\<close> spawns, after the
  view command, exactly the command \<^verbatim>\<open>gh release upload ... --clobber\<close> (one upload, no
  create); for any other outcome of the view command it spawns exactly one
  \<^verbatim>\<open>gh release create\<close> (no upload). The existence check itself never throws.
\<close>

theorem publisher_create_or_upload:
  "\<not> dryRun opts \<and> \<not> skipGh opts \<longrightarrow>
     (let view = fst (spawnSync e ''gh'' [''release'', ''view'', t, ''--repo'', r]
                   \<lparr>sp_cwd = process_cwd e, sp_stdio = ''pipe'', sp_shell = platform_win32 e\<rparr>
                   (files w, dirs w));
          w' = snd (uploadToGitHubRelease e t r stagedPath opts w);
          issued = drop (length (trace w)) (trace w')
      in (\<exists>b. fst (ghReleaseExists e t r opts (logSection ''GitHub Release Upload'' w)) = Done b)
       \<and> (status view = Some 0 \<longrightarrow>
            issued = [Spawn ''gh'' [''release'', ''view'', t, ''--repo'', r],
                      Spawn ''gh'' [''release'', ''upload'', t, stagedPath, ''--repo'', r, ''--clobber'']]
            \<and> release_calls ''upload'' issued = 1 \<and> release_calls ''create'' issued = 0)
       \<and> (status view \<noteq> Some 0 \<longrightarrow>
            issued = [Spawn ''gh'' [''release'', ''view'', t, ''--repo'', r],
                      Spawn ''gh'' (createArgs_of e t r stagedPath opts)]
            \<and> release_calls ''create'' issued = 1 \<and> release_calls ''upload'' issued = 0))"
proof (cases "\<not> dryRun opts \<and> \<not> skipGh opts")
  case False
  then show ?thesis by blast
next
  case True
  then have a: "\<not> dryRun opts" "\<not> skipGh opts" by simp_all
  obtain view fs ds where sp: "spawnSync e ''gh'' [''release'', ''view'', t, ''--repo'', r]
           \<lparr>sp_cwd = process_cwd e, sp_stdio = ''pipe'', sp_shell = platform_win32 e\<rparr>
           (files w, dirs w) = (view, fs, ds)"
    by (metis prod_cases3)
  obtain res w' where up: "uploadToGitHubRelease e t r stagedPath opts w = (res, w')"
    by (cases "uploadToGitHubRelease e t r stagedPath opts w")
  from upload_release_trace [OF a sp up] show ?thesis
    by (auto simp add: Let_def sp up)
qed

theorem publisher_create_or_upload_witness:
  "(let issued = trace (snd (uploadToGitHubRelease sample_env ''v2.3.0'' DEFAULT_REPO
                     ''/repo/release-artifacts/Cockpit.Tools_2.3.0_universal.dmg''
                     default_options sample_world))
    in release_calls ''upload'' issued = 1 \<and> release_calls ''create'' issued = 0)
   \<and> (let issued = trace (snd (uploadToGitHubRelease sample_env ''v2.3.1'' DEFAULT_REPO
                     ''/repo/release-artifacts/Cockpit.Tools_2.3.1_universal.dmg''
                     default_options sample_world))
    in release_calls ''create'' issued = 1 \<and> release_calls ''upload'' issued = 0)"
proof -
  have h: "\<not> dryRun default_options \<and> \<not> skipGh default_options"
    by (simp add: default_options_def)
  have t0: "trace sample_world = []"
    by (simp add: sample_world_def)
  have v0: "status (fst (spawnSync sample_env ''gh'' [''release'', ''view'', ''v2.3.0'', ''--repo'', r] so fsd))
              = Some 0" for r so fsd
    by (simp add: sample_env_def sample_spawn_def)
  have v1: "status (fst (spawnSync sample_env ''gh'' [''release'', ''view'', ''v2.3.1'', ''--repo'', r] so fsd))
              \<noteq> Some 0" for r so fsd
    by (simp add: sample_env_def sample_spawn_def)
  show ?thesis
    using h
      publisher_create_or_upload [of default_options sample_env "''v2.3.0''" DEFAULT_REPO sample_world
        "''/repo/release-artifacts/Cockpit.Tools_2.3.0_universal.dmg''"]
      publisher_create_or_upload [of default_options sample_env "''v2.3.1''" DEFAULT_REPO sample_world
        "''/repo/release-artifacts/Cockpit.Tools_2.3.1_universal.dmg''"]
    by (simp add: Let_def t0 v0 v1 release_calls_def is_release_call_def createArgs_of_def)
qed

subsection \<open>Dry run\<close>


lemma unchanged_refl [simp]: "unchanged w w"
  by (simp add: unchanged_def)

lemma unchanged_trans: "unchanged w1 w2 \<Longrightarrow> unchanged w2 w3 \<Longrightarrow> unchanged w1 w3"
  by (auto simp: unchanged_def prefix_def)

lemma unchanged_log [simp]: "unchanged w (log l w')  = unchanged w w'"
  by (simp add: unchanged_def)

lemma unchanged_logSection [simp]: "unchanged w (logSection t w') = unchanged w w'"
  by (simp add: unchanged_def)

lemma unchanged_read_event:
  "read_only ev \<Longrightarrow> unchanged w0 w \<Longrightarrow> unchanged w0 (record_event ev w)"
  by (auto simp: unchanged_def prefix_def)

lemma printHelp_fields [simp]:
  "files (printHelp w) = files w" "dirs (printHelp w) = dirs w" "trace (printHelp w) = trace w"
  "errors (printHelp w) = errors w" "console (printHelp w) = console w @ help_lines"
  by (simp_all add: printHelp_def)

lemma andThen_unchanged:
  assumes "unchanged w0 (snd m)"
    and "\<And>x w1. m = (Done x, w1) \<Longrightarrow> unchanged w0 w1 \<Longrightarrow> unchanged w0 (snd (f x w1))"
  shows "unchanged w0 (snd (andThen m f))"
proof (cases m)
  case (Pair r w1)
  then show ?thesis using assms by (cases r) auto
qed

lemma readFileSync_unchanged:
  "unchanged w0 w \<Longrightarrow> unchanged w0 (snd (readFileSync p w))"
  by (auto simp: readFileSync_def read_only_def intro: unchanged_read_event split: option.splits)

lemma ensureFileExists_unchanged:
  "unchanged w0 w \<Longrightarrow> unchanged w0 (snd (ensureFileExists p l w))"
  by (auto simp: ensureFileExists_def existsSync_def read_only_def Let_def
      intro: unchanged_read_event)

lemma readPackageVersion_unchanged:
  "unchanged w0 w \<Longrightarrow> unchanged w0 (snd (readPackageVersion e w))"
  unfolding readPackageVersion_def
  by (rule andThen_unchanged, erule readFileSync_unchanged) (auto split: res.splits)

lemma buildUniversalIfNeeded_unchanged:
  "dryRun opts \<Longrightarrow> unchanged w0 w \<Longrightarrow> unchanged w0 (snd (buildUniversalIfNeeded e v opts w))"
  by (simp add: buildUniversalIfNeeded_def runCommand_dry run_defaults_def)

lemma resolveSourceDmgPath_unchanged:
  "unchanged w0 w \<Longrightarrow> unchanged w0 (snd (resolveSourceDmgPath e v opts w))"
  unfolding resolveSourceDmgPath_def Let_def
  by (cases "truthy (assetPath opts)")
     (auto intro!: andThen_unchanged ensureFileExists_unchanged)

lemma stageReleaseAsset_unchanged:
  "dryRun opts \<Longrightarrow> unchanged w0 w \<Longrightarrow> unchanged w0 (snd (stageReleaseAsset e src v opts w))"
  by (simp add: stageReleaseAsset_def Let_def)

lemma sha256_unchanged: "unchanged w0 w \<Longrightarrow> unchanged w0 (snd (sha256 e p w))"
  unfolding sha256_def
  by (rule andThen_unchanged, erule readFileSync_unchanged) auto

lemma ensureGhAvailable_unchanged:
  "dryRun opts \<Longrightarrow> unchanged w0 w \<Longrightarrow> unchanged w0 (snd (ensureGhAvailable e opts w))"
  by (simp add: ensureGhAvailable_def runCommand_dry run_defaults_def)

lemma ghReleaseExists_dry:
  "dryRun opts \<Longrightarrow> ghReleaseExists e t r opts w =
     (Done False,
      log ''[dry-run] assume release exists check is skipped''
        (log ''[dry-run] skipped''
          (log (''cwd: '' @ process_cwd e)
            (log (''$ '' @ formatCommand ''gh'' [''release'', ''view'', t, ''--repo'', r]) w))))"
  by (simp add: ghReleaseExists_def runCommand_dry spawn_options_of_def truthy_def)

lemma uploadToGitHubRelease_dry:
  "dryRun opts \<Longrightarrow> \<not> skipGh opts \<Longrightarrow> uploadToGitHubRelease e t r p opts w =
     (Done (),
      log ''[dry-run] skipped''
        (log (''cwd: '' @ process_cwd e)
          (log (''$ '' @ formatCommand ''gh'' (createArgs_of e t r p opts))
            (log ''[dry-run] assume release exists check is skipped''
              (log ''[dry-run] skipped''
                (log (''cwd: '' @ process_cwd e)
                  (log (''$ '' @ formatCommand ''gh'' [''release'', ''view'', t, ''--repo'', r])
                    (logSection ''GitHub Release Upload'' w))))))))"
  by (simp add: uploadToGitHubRelease_def ghReleaseExists_dry runCommand_dry run_defaults_def
      spawn_options_of_def truthy_def createArgs_of_def Let_def)

lemma uploadToGitHubRelease_unchanged:
  "dryRun opts \<Longrightarrow> unchanged w0 w \<Longrightarrow> unchanged w0 (snd (uploadToGitHubRelease e t r p opts w))"
  by (cases "skipGh opts") (simp_all add: uploadToGitHubRelease_dry, simp add: uploadToGitHubRelease_def)

lemma commitCaskUpdate_dry:
  "dryRun opts \<Longrightarrow> fst (commitCaskUpdate e opts c original updated w) = Done ()
     \<and> files (snd (commitCaskUpdate e opts c original updated w)) = files w
     \<and> dirs (snd (commitCaskUpdate e opts c original updated w)) = dirs w
     \<and> trace (snd (commitCaskUpdate e opts c original updated w)) = trace w"
  by (simp add: commitCaskUpdate_def Let_def)

lemma commitCaskUpdate_unchanged:
  "dryRun opts \<Longrightarrow> unchanged w0 w \<Longrightarrow> unchanged w0 (snd (commitCaskUpdate e opts c original updated w))"
  using commitCaskUpdate_dry [of opts e c original updated w] by (simp add: unchanged_def)

lemma updateCaskFile_unchanged:
  assumes "dryRun opts" "unchanged w0 w"
  shows "unchanged w0 (snd (updateCaskFile e v d opts w))"
proof (cases "skipCask opts")
  case True
  then show ?thesis using assms by (simp add: updateCaskFile_def)
next
  case False
  show ?thesis
    unfolding updateCaskFile_def Let_def using False
    apply (simp only: if_False)
    apply (rule andThen_unchanged)
     apply (rule ensureFileExists_unchanged [OF assms(2)])
    apply (rule andThen_unchanged)
     apply (rule readFileSync_unchanged)
     apply simp
    apply (simp add: commitCaskUpdate_unchanged [OF assms(1)] split: res.splits)
    done
qed

lemma main_unchanged:
  assumes "fst (parseArgs argv w) = Done opts" "dryRun opts"
  shows "unchanged w (snd (main e argv w))"
proof -
  have p: "parseArgs argv w = (Done opts, w)"
    using assms(1) parseArgs_Done_world [of argv w opts "snd (parseArgs argv w)"]
    by (cases "parseArgs argv w") auto
  note d = assms(2)
  show ?thesis
    unfolding main_def p andThen_Done Let_def
    apply (rule andThen_unchanged)
     apply (rule readPackageVersion_unchanged, simp)
    apply (rule andThen_unchanged)
     apply (rule buildUniversalIfNeeded_unchanged [OF d], simp)
    apply (rule andThen_unchanged)
     apply (rule resolveSourceDmgPath_unchanged, simp)
    apply (rule andThen_unchanged)
     apply (rule stageReleaseAsset_unchanged [OF d], simp)
    apply (rule andThen_unchanged)
     apply (rule sha256_unchanged, simp)
    apply (rule andThen_unchanged)
     apply (rule ensureGhAvailable_unchanged [OF d], simp)
    apply (rule andThen_unchanged)
     apply (rule uploadToGitHubRelease_unchanged [OF d], simp)
    apply (rule andThen_unchanged)
     apply (rule updateCaskFile_unchanged [OF d], simp)
    apply simp
    done
qed

text \<open>
  Claim C4, as amended. When every item before a help flag (\<^verbatim>\<open>-h\<close> or \<^verbatim>\<open>--help\<close>) is a
  recognised option, with a non-empty value where it takes one, \<^const>\<open>parseArgs\<close> prints the
  usage and exits with status 0, whatever follows the help flag; the options before it were
  read, and the check of the two notes options is never reached.
\<close>

theorem help_after_valid_options:
  "(\<forall>i \<in> set items. valid_item i) \<and> (h = ''-h'' \<or> h = ''--help'')
     \<longrightarrow> parseArgs (render items @ h # post) w = (Exit 0, printHelp w)"
proof (intro impI, elim conjE)
  assume v: "\<forall>i \<in> set items. valid_item i" and h: "h = ''-h'' \<or> h = ''--help''"
  from h have "parseLoop (h # post) (foldl apply_item default_options items) w = (Exit 0, printHelp w)"
    by (elim disjE) simp_all
  then show "parseArgs (render items @ h # post) w = (Exit 0, printHelp w)"
    by (simp add: parseArgs_def parseLoop_valid_items [OF v])
qed

theorem help_after_valid_options_witness:
  "parseArgs [''--dry-run'', ''--tag'', ''v9'', ''-h'', ''--bogus''] sample_world
     = (Exit 0, printHelp sample_world)"
  using help_after_valid_options [of "[F_dry_run, F_tag ''v9'']" "''-h''" "[''--bogus'']" sample_world]
  by (simp add: render_def valid_item_def)

text \<open>
  The claim as it was stated fails: an unknown token before the help flag is evaluated
  first and raises its error, and a help token that follows an option taking a value is
  read as that value.
\<close>

theorem help_not_first_counterexample:
  "fst (parseArgs [''--bogus'', ''--help''] sample_world) = Throw ''Unknown argument: --bogus''
   \<and> fst (parseArgs [''--tag'', ''--help''] sample_world)
       = Done (default_options\<lparr>tag := Some ''--help''\<rparr>)"
  by (simp add: parseArgs_def requireValue_def shift_def truthy_def default_options_def)

text \<open>
  Claim C7, as amended. On an argument list in which no help flag stands where an option
  is expected (a well-formed list of items): when \<^verbatim>\<open>--notes-file\<close> with a value and
  \<^verbatim>\<open>--generate-notes\<close> are both supplied, \<^const>\<open>parseArgs\<close> throws and leaves the world as
  it was; when every item is valid the error is the one of the notes check; and when every
  item is valid and the two are not both supplied, it returns the options the items set,
  none of whose fields is empty.
\<close>

theorem notes_exclusive_or_complete:
  "well_formed items \<longrightarrow>
     ((\<exists>v. v \<noteq> [] \<and> F_notes_file v \<in> set items) \<and> F_generate_notes \<in> set items
        \<longrightarrow> (\<exists>msg. parseArgs (render items) w = (Throw msg, w)))
   \<and> ((\<forall>i \<in> set items. valid_item i) \<and> both_notes items
        \<longrightarrow> parseArgs (render items) w
              = (Throw ''Use either --notes-file or --generate-notes, not both.'', w))
   \<and> ((\<forall>i \<in> set items. valid_item i) \<and> \<not> both_notes items
        \<longrightarrow> parseArgs (render items) w = (Done (foldl apply_item default_options items), w)
            \<and> complete (foldl apply_item default_options items))"
proof (intro impI)
  assume wf: "well_formed items"
  let ?opts = "foldl apply_item default_options items"
  note loop = parseLoop_render [OF wf, of default_options w]
  have gen: "generateNotes ?opts = (F_generate_notes \<in> set items)"
    by (simp add: generateNotes_foldl default_options_def)
  have valid_both: "parseArgs (render items) w
      = (Throw ''Use either --notes-file or --generate-notes, not both.'', w)"
    if v: "\<forall>i \<in> set items. valid_item i" and b: "both_notes items"
  proof -
    from v have "first_error items = None" by (simp add: first_error_None)
    moreover from v b have "truthy (notesFile ?opts)"
      by (intro notesFile_foldl_truthy) (auto simp: both_notes_def)
    moreover from b have "generateNotes ?opts" by (simp add: gen both_notes_def)
    ultimately show ?thesis by (simp add: parseArgs_def loop)
  qed
  have valid_not_both: "parseArgs (render items) w = (Done ?opts, w) \<and> complete ?opts"
    if v: "\<forall>i \<in> set items. valid_item i" and b: "\<not> both_notes items"
  proof -
    from v have fe: "first_error items = None" by (simp add: first_error_None)
    have "\<not> (truthy (notesFile ?opts) \<and> generateNotes ?opts)"
    proof (cases "\<exists>v. F_notes_file v \<in> set items")
      case True
      with b show ?thesis by (simp add: gen both_notes_def)
    next
      case False
      then have "notesFile ?opts = notesFile default_options"
        by (intro notesFile_foldl_absent) simp
      then show ?thesis by (simp add: default_options_def truthy_def)
    qed
    moreover have "complete ?opts" by (rule complete_foldl [OF v complete_default])
    ultimately show ?thesis by (simp add: parseArgs_def loop fe)
  qed
  have some_error: "\<exists>msg. parseArgs (render items) w = (Throw msg, w)"
    if n: "\<exists>v. v \<noteq> [] \<and> F_notes_file v \<in> set items" and g: "F_generate_notes \<in> set items"
  proof (cases "first_error items")
    case None
    then have "\<forall>i \<in> set items. valid_item i" by (simp add: first_error_None)
    moreover from n g have "both_notes items" by (auto simp: both_notes_def)
    ultimately show ?thesis using valid_both by blast
  next
    case (Some msg)
    then show ?thesis by (simp add: parseArgs_def loop)
  qed
  from valid_both valid_not_both some_error
  show "((\<exists>v. v \<noteq> [] \<and> F_notes_file v \<in> set items) \<and> F_generate_notes \<in> set items
        \<longrightarrow> (\<exists>msg. parseArgs (render items) w = (Throw msg, w)))
   \<and> ((\<forall>i \<in> set items. valid_item i) \<and> both_notes items
        \<longrightarrow> parseArgs (render items) w
              = (Throw ''Use either --notes-file or --generate-notes, not both.'', w))
   \<and> ((\<forall>i \<in> set items. valid_item i) \<and> \<not> both_notes items
        \<longrightarrow> parseArgs (render items) w = (Done ?opts, w) \<and> complete ?opts)"
    by blast
qed

theorem notes_exclusive_or_complete_witness:
  "parseArgs [''--notes-file'', ''n.md'', ''--generate-notes''] sample_world
     = (Throw ''Use either --notes-file or --generate-notes, not both.'', sample_world)
   \<and> parseArgs [''--skip-build'', ''--repo'', ''o/r''] sample_world
     = (Done (default_options\<lparr>skipBuild := True, repo := ''o/r''\<rparr>), sample_world)
   \<and> complete (default_options\<lparr>skipBuild := True, repo := ''o/r''\<rparr>)"
  using notes_exclusive_or_complete [of "[F_notes_file ''n.md'', F_generate_notes]" sample_world]
    notes_exclusive_or_complete [of "[F_skip_build, F_repo ''o/r'']" sample_world]
  by (simp add: render_def valid_item_def both_notes_def)

text \<open>
  The claim as it was stated fails: with both notes options supplied and a help flag after
  them, the resolver prints the usage and exits with status 0.
\<close>

theorem notes_with_help_counterexample:
  "fst (parseArgs [''--notes-file'', ''n.md'', ''--generate-notes'', ''--help''] sample_world) = Exit 0"
  by (simp add: parseArgs_def requireValue_def shift_def truthy_def)

subsection \<open>Command runner\<close>

text \<open>
  Claim C5. In a call of \<^const>\<open>runCommand\<close> that is not a dry run, let the spawned process
  exit with a status other than 0. Without \<^verbatim>\<open>allowFailure\<close> the call throws an error whose
  message holds the exit status and the command line; with \<^verbatim>\<open>allowFailure\<close> it returns
  the result of the process to the caller.
\<close>

theorem runCommand_nonzero_exit:
  assumes "\<not> ro_dryRun ro"
    and "spawnSync e cmd args (spawn_options_of e ro) (files w, dirs w) = (result, fs, ds)"
    and "error result = None" and "status result = Some n" and "n \<noteq> 0"
  shows "(\<not> ro_allowFailure ro \<longrightarrow>
            fst (runCommand e cmd args ro w)
              = Throw (''Command failed (exit='' @ show_int n @ ''): '' @ formatCommand cmd args))
       \<and> (ro_allowFailure ro \<longrightarrow> fst (runCommand e cmd args ro w) = Done result)"
  using assms by (simp add: runCommand_real)

theorem runCommand_nonzero_exit_witness:
  "fst (runCommand sample_env ''gh'' [''release'', ''view'', ''v9'', ''--repo'', ''o/r''] run_defaults
          sample_world)
     = Throw ''Command failed (exit=1): gh release view v9 --repo o/r''
   \<and> fst (runCommand sample_env ''gh'' [''release'', ''view'', ''v9'', ''--repo'', ''o/r'']
            (run_defaults\<lparr>ro_allowFailure := True\<rparr>) sample_world)
     = Done \<lparr>error = None, status = Some 1, stdout = Some [], stderr = Some ''release not found''\<rparr>"
proof -
  let ?res = "\<lparr>error = None, status = Some (1::int), stdout = Some [],
               stderr = Some ''release not found''\<rparr>"
  have d: "\<not> ro_dryRun run_defaults" "\<not> ro_dryRun (run_defaults\<lparr>ro_allowFailure := True\<rparr>)"
    "\<not> ro_allowFailure run_defaults" "ro_allowFailure (run_defaults\<lparr>ro_allowFailure := True\<rparr>)"
    by (simp_all add: run_defaults_def)
  have sp: "spawnSync sample_env ''gh'' [''release'', ''view'', ''v9'', ''--repo'', ''o/r''] so
              (files sample_world, dirs sample_world)
            = (?res, files sample_world, dirs sample_world)" for so
    by (simp add: sample_env_def sample_spawn_def)
  have r: "error ?res = None" "status ?res = Some 1" "(1::int) \<noteq> 0"
    by simp_all
  have s: "show_int 1 = ''1''"
    by (simp add: show_int_def digit_char_def)
  have f: "formatCommand ''gh'' [''release'', ''view'', ''v9'', ''--repo'', ''o/r'']
             = ''gh release view v9 --repo o/r''"
    by (simp add: formatCommand_def)
  show ?thesis
    using runCommand_nonzero_exit [OF d(1) sp r] runCommand_nonzero_exit [OF d(2) sp r] d(3,4)
    by (simp add: s f)
qed

lemma script_world:
  "files (snd (script e argv w)) = files (snd (main e argv w))"
  "dirs (snd (script e argv w)) = dirs (snd (main e argv w))"
  "trace (snd (script e argv w)) = trace (snd (main e argv w))"
  "console (snd (script e argv w)) = console (snd (main e argv w))"
  by (cases "main e argv w"; cases "fst (main e argv w)"; simp add: script_def)+

text \<open>
  Claim C3. When the arguments resolve to options with the dry-run flag set, the whole
  script leaves every file and every directory as it was, and every call it makes to the
  file system only inspects it: it makes no directory, copies and writes no file, and
  spawns no process. Every call of \<^const>\<open>runCommand\<close> under dry run returns the synthetic
  result with status 0 and spawns nothing.
\<close>

theorem dry_run_mutates_nothing:
  "fst (parseArgs argv w) = Done opts \<and> dryRun opts \<longrightarrow>
     files (snd (script e argv w)) = files w
   \<and> dirs (snd (script e argv w)) = dirs w
   \<and> prefix (trace w) (trace (snd (script e argv w)))
   \<and> list_all read_only (drop (length (trace w)) (trace (snd (script e argv w))))
   \<and> (\<forall>cmd args ro w1. ro_dryRun ro \<longrightarrow>
         fst (runCommand e cmd args ro w1) = Done dry_result
       \<and> trace (snd (runCommand e cmd args ro w1)) = trace w1
       \<and> files (snd (runCommand e cmd args ro w1)) = files w1
       \<and> dirs (snd (runCommand e cmd args ro w1)) = dirs w1)"
proof (intro impI, elim conjE)
  assume "fst (parseArgs argv w) = Done opts" and "dryRun opts"
  then have "unchanged w (snd (main e argv w))"
    by (rule main_unchanged)
  then show "files (snd (script e argv w)) = files w
   \<and> dirs (snd (script e argv w)) = dirs w
   \<and> prefix (trace w) (trace (snd (script e argv w)))
   \<and> list_all read_only (drop (length (trace w)) (trace (snd (script e argv w))))
   \<and> (\<forall>cmd args ro w1. ro_dryRun ro \<longrightarrow>
         fst (runCommand e cmd args ro w1) = Done dry_result
       \<and> trace (snd (runCommand e cmd args ro w1)) = trace w1
       \<and> files (snd (runCommand e cmd args ro w1)) = files w1
       \<and> dirs (snd (runCommand e cmd args ro w1)) = dirs w1)"
    by (simp add: unchanged_def script_world runCommand_dry)
qed

theorem dry_run_mutates_nothing_witness:
  "files (snd (script sample_env [''--dry-run''] sample_world)) = files sample_world
   \<and> dirs (snd (script sample_env [''--dry-run''] sample_world)) = {}
   \<and> list_all read_only (trace (snd (script sample_env [''--dry-run''] sample_world)))
   \<and> fst (runCommand sample_env ''npm'' [''run'', ''tauri'', ''build'']
            (run_defaults\<lparr>ro_dryRun := True\<rparr>) sample_world) = Done dry_result"
proof -
  have p: "fst (parseArgs [''--dry-run''] sample_world) = Done (default_options\<lparr>dryRun := True\<rparr>)
           \<and> dryRun (default_options\<lparr>dryRun := True\<rparr>)"
    by (simp add: parseArgs_def default_options_def truthy_def)
  have t: "trace sample_world = []" "dirs sample_world = {}"
    by (simp_all add: sample_world_def)
  have d: "ro_dryRun (run_defaults\<lparr>ro_dryRun := True\<rparr>)"
    by simp
  from dry_run_mutates_nothing [of "[''--dry-run'']" sample_world "default_options\<lparr>dryRun := True\<rparr>"
      sample_env] p
  have "files (snd (script sample_env [''--dry-run''] sample_world)) = files sample_world"
    and "dirs (snd (script sample_env [''--dry-run''] sample_world)) = dirs sample_world"
    and "list_all read_only (drop (length (trace sample_world))
           (trace (snd (script sample_env [''--dry-run''] sample_world))))"
    and "\<forall>cmd args ro w1. ro_dryRun ro \<longrightarrow>
           fst (runCommand sample_env cmd args ro w1) = Done dry_result"
    by blast+
  then show ?thesis using d by (simp add: t)
qed

text \<open>
  Claim C9, as amended. Under dry run \<^const>\<open>ghReleaseExists\<close> returns false without
  querying the remote, whatever the environment would answer. So when the publisher is not
  skipped, the console output of \<^const>\<open>uploadToGitHubRelease\<close> under dry run holds exactly
  one preview of a create command, the one with the arguments of the run, and no preview of
  an upload command. With \<^verbatim>\<open>--skip-gh\<close> the publisher prints nothing.
\<close>

theorem dry_run_previews_create:
  "dryRun opts \<longrightarrow>
     fst (ghReleaseExists e t r opts w) = Done False
   \<and> trace (snd (ghReleaseExists e t r opts w)) = trace w
   \<and> (\<not> skipGh opts \<longrightarrow>
        filter previews_create
          (drop (length (console w)) (console (snd (uploadToGitHubRelease e t r p opts w))))
          = [''$ '' @ formatCommand ''gh'' (createArgs_of e t r p opts)]
      \<and> filter previews_upload
          (drop (length (console w)) (console (snd (uploadToGitHubRelease e t r p opts w)))) = [])
   \<and> (skipGh opts \<longrightarrow> console (snd (uploadToGitHubRelease e t r p opts w)) = console w)"
proof
  assume d: "dryRun opts"
  have g: "fst (ghReleaseExists e t r opts w) = Done False
     \<and> trace (snd (ghReleaseExists e t r opts w)) = trace w"
    by (simp add: ghReleaseExists_dry [OF d])
  have s: "console (snd (uploadToGitHubRelease e t r p opts w)) = console w" if "skipGh opts"
    using that by (simp add: uploadToGitHubRelease_def)
  have c: "''$ '' @ formatCommand ''gh'' (createArgs_of e t r p opts)
             = ''$ gh release create'' @ '' '' @ join_with '' '' (drop 2 (createArgs_of e t r p opts))"
    by (simp add: formatCommand_def createArgs_of_def)
  have v: "''$ '' @ formatCommand ''gh'' [''release'', ''view'', t, ''--repo'', r]
             = ''$ gh release view '' @ t @ '' --repo '' @ r"
    by (simp add: formatCommand_def)
  have n: "filter previews_create
          (drop (length (console w)) (console (snd (uploadToGitHubRelease e t r p opts w))))
          = [''$ '' @ formatCommand ''gh'' (createArgs_of e t r p opts)]
      \<and> filter previews_upload
          (drop (length (console w)) (console (snd (uploadToGitHubRelease e t r p opts w)))) = []"
    if "\<not> skipGh opts"
    unfolding uploadToGitHubRelease_dry [OF d that] c v
    by (simp add: previews_create_def previews_upload_def)
  from g s n show "fst (ghReleaseExists e t r opts w) = Done False
   \<and> trace (snd (ghReleaseExists e t r opts w)) = trace w
   \<and> (\<not> skipGh opts \<longrightarrow>
        filter previews_create
          (drop (length (console w)) (console (snd (uploadToGitHubRelease e t r p opts w))))
          = [''$ '' @ formatCommand ''gh'' (createArgs_of e t r p opts)]
      \<and> filter previews_upload
          (drop (length (console w)) (console (snd (uploadToGitHubRelease e t r p opts w)))) = [])
   \<and> (skipGh opts \<longrightarrow> console (snd (uploadToGitHubRelease e t r p opts w)) = console w)"
    by blast
qed

theorem dry_run_previews_create_witness:
  "fst (ghReleaseExists sample_env ''v2.3.0'' DEFAULT_REPO (default_options\<lparr>dryRun := True\<rparr>)
          sample_world) = Done False
   \<and> filter previews_create
        (console (snd (uploadToGitHubRelease sample_env ''v2.3.0'' DEFAULT_REPO ''/staged.dmg''
                         (default_options\<lparr>dryRun := True\<rparr>) sample_world)))
      = [''$ gh release create v2.3.0 /staged.dmg --repo jlcodes99/cockpit-tools --title v2.3.0 --notes Release v2.3.0'']
   \<and> filter previews_upload
        (console (snd (uploadToGitHubRelease sample_env ''v2.3.0'' DEFAULT_REPO ''/staged.dmg''
                         (default_options\<lparr>dryRun := True\<rparr>) sample_world))) = []"
proof -
  have d: "dryRun (default_options\<lparr>dryRun := True\<rparr>)" "\<not> skipGh (default_options\<lparr>dryRun := True\<rparr>)"
    by (simp_all add: default_options_def)
  have c: "console sample_world = []"
    by (simp add: sample_world_def)
  have a: "formatCommand ''gh''
              (createArgs_of sample_env ''v2.3.0'' DEFAULT_REPO ''/staged.dmg''
                 (default_options\<lparr>dryRun := True\<rparr>))
           = ''gh release create v2.3.0 /staged.dmg --repo jlcodes99/cockpit-tools --title v2.3.0 --notes Release v2.3.0''"
    by (simp add: formatCommand_def createArgs_of_def default_options_def truthy_def DEFAULT_REPO_def)
  show ?thesis
    using dry_run_previews_create [of "default_options\<lparr>dryRun := True\<rparr>" sample_env "''v2.3.0''"
        DEFAULT_REPO sample_world "''/staged.dmg''"] d
    by (simp add: c a)
qed

text \<open>
  The claim as it was stated fails: a dry run with \<^verbatim>\<open>--skip-gh\<close> previews no create
  command, the publisher returns before the existence check.
\<close>

theorem dry_run_skip_gh_counterexample:
  "filter previews_create
     (console (snd (uploadToGitHubRelease sample_env ''v2.3.1'' DEFAULT_REPO ''/staged.dmg''
                      (default_options\<lparr>dryRun := True, skipGh := True\<rparr>) sample_world))) = []"
  by (simp add: uploadToGitHubRelease_def sample_world_def default_options_def)

subsection \<open>Digest\<close>

lemma hex_digit_lower: "hex_digit (n mod 16) \<in> set ''0123456789abcdef''"
proof -
  have "n mod 16 < length ''0123456789abcdef''" by simp
  then show ?thesis unfolding hex_digit_def by (rule nth_mem)
qed

lemma digest_hex_length: "length (digest_hex d) = 64"
  by (simp add: digest_hex_def)

lemma digest_hex_lower: "c \<in> set (digest_hex d) \<Longrightarrow> c \<in> set ''0123456789abcdef''"
  unfolding digest_hex_def using hex_digit_lower by (auto simp del: set_simps)

lemma sha256_of_file:
  "files w p = Some content \<Longrightarrow>
     sha256 e p w = (Done (digest_hex (sha256_of e content)), record_event (ReadFile p) w)"
  by (simp add: sha256_def readFileSync_def)

lemma hex_value_hex_digit: "n < 16 \<Longrightarrow> hex_value (hex_digit n) = n"
proof -
  assume "n < 16"
  then have "n \<in> {0,1,2,3,4,5,6,7,8,9,10,11,12,13,14,15}"
    by simp arith
  then show ?thesis
    unfolding hex_value_def hex_digit_def by (elim insertE emptyE) simp_all
qed

lemma foldl_hex_shift:
  "foldl (\<lambda>a c. 16 * a + hex_value c) a cs
     = a * 16 ^ length cs + foldl (\<lambda>a c. 16 * a + hex_value c) 0 cs"
proof (induction cs arbitrary: a)
  case Nil
  show ?case by simp
next
  case (Cons c cs)
  have "foldl (\<lambda>a c. 16 * a + hex_value c) a (c # cs)
      = (16 * a + hex_value c) * 16 ^ length cs + foldl (\<lambda>a c. 16 * a + hex_value c) 0 cs"
    using Cons.IH [of "16 * a + hex_value c"] by simp
  moreover have "foldl (\<lambda>a c. 16 * a + hex_value c) 0 (c # cs)
      = hex_value c * 16 ^ length cs + foldl (\<lambda>a c. 16 * a + hex_value c) 0 cs"
    using Cons.IH [of "hex_value c"] by simp
  ultimately show ?case by (simp add: algebra_simps)
qed

lemma hex_decode_digits:
  "hex_decode (map (\<lambda>i. hex_digit (n div 16 ^ i mod 16)) (rev [0..<k])) = n mod 16 ^ k"
proof (induction k)
  case 0
  show ?case by (simp add: hex_decode_def)
next
  case (Suc k)
  have "hex_decode (map (\<lambda>i. hex_digit (n div 16 ^ i mod 16)) (rev [0..<Suc k]))
      = hex_value (hex_digit (n div 16 ^ k mod 16)) * 16 ^ k
        + hex_decode (map (\<lambda>i. hex_digit (n div 16 ^ i mod 16)) (rev [0..<k]))"
    unfolding hex_decode_def
    using foldl_hex_shift [of "hex_value (hex_digit (n div 16 ^ k mod 16))"
        "map (\<lambda>i. hex_digit (n div 16 ^ i mod 16)) (rev [0..<k])"]
    by simp
  also have "\<dots> = (n div 16 ^ k mod 16) * 16 ^ k + n mod 16 ^ k"
    using Suc.IH by (simp add: hex_value_hex_digit)
  also have "\<dots> = n mod 16 ^ Suc k"
  proof -
    have "n mod (16 ^ k * 16) = 16 ^ k * (n div 16 ^ k mod 16) + n mod 16 ^ k"
      by (rule mod_mult2_eq)
    then show ?thesis by (simp add: mult.commute)
  qed
  finally show ?case .
qed

lemma digest_hex_digits:
  "digest_hex d = map (\<lambda>i. hex_digit (unat d div 16 ^ i mod 16)) (rev [0..<64])"
proof -
  have "unat (drop_bit (4 * i) d) = unat d div 16 ^ i" for i
  proof -
    have "unat (drop_bit (4 * i) d) = drop_bit (4 * i) (unat d)"
      by (rule unat_drop_bit_eq)
    also have "\<dots> = unat d div 2 ^ (4 * i)"
      by (rule drop_bit_eq_div)
    also have "(2::nat) ^ (4 * i) = 16 ^ i"
      by (simp add: power_mult)
    finally show ?thesis .
  qed
  then show ?thesis unfolding digest_hex_def by simp
qed

lemma hex_decode_digest_hex: "hex_decode (digest_hex d) = unat d"
proof -
  have "unat d < 2 ^ 256" using unsigned_less [of d] by simp
  moreover have "(2::nat) ^ 256 = 16 ^ 64" by simp
  ultimately have "unat d mod 16 ^ 64 = unat d" by simp
  then show ?thesis using hex_decode_digits [of "unat d" 64] by (simp add: digest_hex_digits)
qed

lemma digest_hex_inj: "(digest_hex d1 = digest_hex d2) = (d1 = d2)"
proof
  assume "digest_hex d1 = digest_hex d2"
  then have "unat d1 = unat d2" using hex_decode_digest_hex by metis
  then show "d1 = d2" by (simp add: word_unat_eq_iff)
qed simp

text \<open>
  Claim C8. The digest of a file is a function of its content alone: two files with the
  same content, at any paths and in any two states of the world, get the same digest, and
  two files get the same digest only if their contents have the same SHA-256 value. The
  digest is the lowercase hexadecimal encoding of the SHA-256 value of the content: 64
  characters, each one of \<^verbatim>\<open>0123456789abcdef\<close>, which read as a number in base 16 (most
  significant digit first) give back the 256-bit value of the hash.
\<close>

theorem sha256_deterministic:
  "files w1 p1 = Some c1 \<and> files w2 p2 = Some c2 \<longrightarrow>
     fst (sha256 e p1 w1) = Done (digest_hex (sha256_of e c1))
   \<and> (c1 = c2 \<longrightarrow> fst (sha256 e p1 w1) = fst (sha256 e p2 w2))
   \<and> (fst (sha256 e p1 w1) = fst (sha256 e p2 w2)) = (sha256_of e c1 = sha256_of e c2)
   \<and> hex_decode (digest_hex (sha256_of e c1)) = unat (sha256_of e c1)
   \<and> length (digest_hex (sha256_of e c1)) = 64
   \<and> (\<forall>c \<in> set (digest_hex (sha256_of e c1)). c \<in> set ''0123456789abcdef'')"
proof (intro impI, elim conjE)
  assume f1: "files w1 p1 = Some c1" and f2: "files w2 p2 = Some c2"
  have s1: "fst (sha256 e p1 w1) = Done (digest_hex (sha256_of e c1))"
    by (simp add: sha256_of_file [OF f1])
  have s2: "fst (sha256 e p2 w2) = Done (digest_hex (sha256_of e c2))"
    by (simp add: sha256_of_file [OF f2])
  have eq: "(fst (sha256 e p1 w1) = fst (sha256 e p2 w2)) = (sha256_of e c1 = sha256_of e c2)"
    unfolding s1 s2 by (simp add: digest_hex_inj)
  have lower: "\<forall>c \<in> set (digest_hex (sha256_of e c1)). c \<in> set ''0123456789abcdef''"
    using digest_hex_lower by blast
  show "fst (sha256 e p1 w1) = Done (digest_hex (sha256_of e c1))
   \<and> (c1 = c2 \<longrightarrow> fst (sha256 e p1 w1) = fst (sha256 e p2 w2))
   \<and> (fst (sha256 e p1 w1) = fst (sha256 e p2 w2)) = (sha256_of e c1 = sha256_of e c2)
   \<and> hex_decode (digest_hex (sha256_of e c1)) = unat (sha256_of e c1)
   \<and> length (digest_hex (sha256_of e c1)) = 64
   \<and> (\<forall>c \<in> set (digest_hex (sha256_of e c1)). c \<in> set ''0123456789abcdef'')"
    using s1 eq lower hex_decode_digest_hex digest_hex_length by blast
qed

theorem sha256_deterministic_witness:
  "fst (sha256 sample_env sample_dmg_path sample_world)
     = fst (sha256 sample_env ''/copy.dmg'' (sample_world\<lparr>files := [''/copy.dmg'' \<mapsto> ''dmg bytes'']\<rparr>))
   \<and> fst (sha256 sample_env sample_dmg_path sample_world)
     \<noteq> fst (sha256 sample_env ''/other.dmg'' (sample_world\<lparr>files := [''/other.dmg'' \<mapsto> ''dmg'']\<rparr>))
   \<and> fst (sha256 sample_env sample_dmg_path sample_world) = Done (digest_hex 9)
   \<and> hex_decode (digest_hex 9) = 9
   \<and> length (digest_hex 9) = 64"
proof -
  have f: "files sample_world sample_dmg_path = Some ''dmg bytes''
      \<and> files (sample_world\<lparr>files := [''/copy.dmg'' \<mapsto> ''dmg bytes'']\<rparr>) ''/copy.dmg'' = Some ''dmg bytes''"
    by (simp add: sample_world_def sample_dmg_path_def)
  have g: "files sample_world sample_dmg_path = Some ''dmg bytes''
      \<and> files (sample_world\<lparr>files := [''/other.dmg'' \<mapsto> ''dmg'']\<rparr>) ''/other.dmg'' = Some ''dmg''"
    by (simp add: sample_world_def sample_dmg_path_def)
  have s: "sha256_of sample_env ''dmg bytes'' = 9"
    by (simp add: sample_env_def)
  have t: "sha256_of sample_env ''dmg'' = 3"
    by (simp add: sample_env_def)
  have u: "unat (9 :: 256 word) = 9" "((9 :: 256 word) = 3) = False"
    by simp_all
  show ?thesis
    using sha256_deterministic [of sample_world sample_dmg_path "''dmg bytes''"
        "sample_world\<lparr>files := [''/copy.dmg'' \<mapsto> ''dmg bytes'']\<rparr>" "''/copy.dmg''"
        "''dmg bytes''" sample_env] f
      sha256_deterministic [of sample_world sample_dmg_path "''dmg bytes''"
        "sample_world\<lparr>files := [''/other.dmg'' \<mapsto> ''dmg'']\<rparr>" "''/other.dmg''"
        "''dmg''" sample_env] g
    unfolding s t u by blast
qed

subsection \<open>Orchestrator\<close>


lemma andThen_DoneE:
  assumes "andThen m f = (Done y, w')"
  obtains x w1 where "m = (Done x, w1)" "f x w1 = (Done y, w')"
  using assms by (cases m; cases "fst m") (auto simp: andThen_def)

lemma andThen_grows:
  assumes "prefix tr (trace (snd m))"
    and "\<And>x w1. m = (Done x, w1) \<Longrightarrow> prefix tr (trace w1) \<Longrightarrow> prefix tr (trace (snd (f x w1)))"
  shows "prefix tr (trace (snd (andThen m f)))"
proof (cases m)
  case (Pair r w1)
  then show ?thesis using assms by (cases r) auto
qed

lemma runCommand_trace:
  "trace (snd (runCommand e cmd args ro w))
     = trace w @ (if ro_dryRun ro then [] else [Spawn cmd args])"
  by (simp add: runCommand_dry runCommand_real_trace)

lemma runCommand_grows:
  "prefix tr (trace w) \<Longrightarrow> prefix tr (trace (snd (runCommand e cmd args ro w)))"
  by (simp add: runCommand_trace prefix_prefix)

lemma ensureFileExists_eq:
  "ensureFileExists p l w =
     ((if files w p \<noteq> None \<or> p \<in> dirs w then Done () else Throw (l @ '' not found: '' @ p)),
      record_event (ExistsSync p) w)"
  by (simp add: ensureFileExists_def existsSync_def)

lemma readFileSync_eq:
  "readFileSync p w =
     ((case files w p of None \<Rightarrow> Throw (''ENOENT: no such file or directory, open '' @ p)
       | Some c \<Rightarrow> Done c),
      record_event (ReadFile p) w)"
  by (simp add: readFileSync_def split: option.splits)

lemma readPackageVersion_Done:
  assumes "readPackageVersion e w = (Done v, w')"
  shows "w' = record_event (ReadFile (path_resolve e [''package.json''])) w
         \<and> fst (readPackageVersion e w) = Done v"
proof -
  from assms have "w' = record_event (ReadFile (path_resolve e [''package.json''])) w"
    unfolding readPackageVersion_def
    by (elim andThen_DoneE) (auto simp: readFileSync_eq split: res.splits if_splits)
  with assms show ?thesis by simp
qed

lemma buildUniversalIfNeeded_Done:
  assumes "buildUniversalIfNeeded e v opts w = (Done u, w')"
  shows "trace w' = trace w @ (if dryRun opts then [] else build_events opts)"
proof -
  have "trace (snd (buildUniversalIfNeeded e v opts w))
      = trace w @ (if dryRun opts then [] else build_events opts)"
    by (simp add: buildUniversalIfNeeded_def build_events_def runCommand_trace run_defaults_def)
  with assms show ?thesis by simp
qed

lemma resolveSourceDmgPath_eq:
  "resolveSourceDmgPath e v opts w =
     ((if files w (source_path_of e v opts) \<noteq> None \<or> source_path_of e v opts \<in> dirs w
       then Done (source_path_of e v opts)
       else Throw (source_label opts @ '' not found: '' @ source_path_of e v opts)),
      record_event (ExistsSync (source_path_of e v opts)) w)"
  by (simp add: resolveSourceDmgPath_def source_path_of_def source_label_def ensureFileExists_eq
      Let_def)

lemma stageReleaseAsset_dry:
  "dryRun opts \<Longrightarrow> fst (stageReleaseAsset e src v opts w) = Done (staged_path_of e v,
       DEFAULT_RELEASE_ASSET_PREFIX @ ''_'' @ v @ ''_universal.dmg'')
     \<and> trace (snd (stageReleaseAsset e src v opts w)) = trace w"
  by (simp add: stageReleaseAsset_def staged_path_of_def Let_def)

lemma mkdirSync_Done: "mkdirSync p w = (Done u, w') \<Longrightarrow> trace w' = trace w @ [Mkdir p]"
  by (auto simp: mkdirSync_def split: if_splits)

lemma copyFileSync_Done:
  "copyFileSync s d w = (Done u, w') \<Longrightarrow> trace w' = trace w @ [CopyFile s d]"
  by (auto simp: copyFileSync_def split: option.splits if_splits)

lemma stageReleaseAsset_real_Done:
  assumes "\<not> dryRun opts" "stageReleaseAsset e src v opts w = (Done staged, w')"
  shows "fst staged = staged_path_of e v"
    and "trace w' = trace w @ [Mkdir (path_resolve e [''release-artifacts''])]
            @ copy_events e src (staged_path_of e v) @ [ExistsSync (staged_path_of e v)]"
proof -
  let ?dir = "path_resolve e [''release-artifacts'']"
  let ?st = "staged_path_of e v"
  let ?w1 = "log (''staged: '' @ ?st) (log (''source: '' @ src) (logSection ''Stage Release Asset'' w))"
  from assms have a: "andThen (mkdirSync ?dir ?w1) (\<lambda>_ w2.
          andThen (if path_resolve e [src] \<noteq> path_resolve e [?st]
                   then copyFileSync src ?st w2 else (Done (), w2)) (\<lambda>_ w3.
          andThen (ensureFileExists ?st ''Staged DMG'' w3) (\<lambda>_ w4.
            (Done (?st, DEFAULT_RELEASE_ASSET_PREFIX @ ''_'' @ v @ ''_universal.dmg''), w4))))
       = (Done staged, w')"
    unfolding stageReleaseAsset_def staged_path_of_def Let_def by simp
  from a obtain u2 w2 where m: "mkdirSync ?dir ?w1 = (Done u2, w2)"
    and b: "andThen (if path_resolve e [src] \<noteq> path_resolve e [?st]
                   then copyFileSync src ?st w2 else (Done (), w2)) (\<lambda>_ w3.
          andThen (ensureFileExists ?st ''Staged DMG'' w3) (\<lambda>_ w4.
            (Done (?st, DEFAULT_RELEASE_ASSET_PREFIX @ ''_'' @ v @ ''_universal.dmg''), w4)))
       = (Done staged, w')"
    by (rule andThen_DoneE)
  from b obtain u3 w3 where c: "(if path_resolve e [src] \<noteq> path_resolve e [?st]
                   then copyFileSync src ?st w2 else (Done (), w2)) = (Done u3, w3)"
    and d: "andThen (ensureFileExists ?st ''Staged DMG'' w3) (\<lambda>_ w4.
            (Done (?st, DEFAULT_RELEASE_ASSET_PREFIX @ ''_'' @ v @ ''_universal.dmg''), w4))
       = (Done staged, w')"
    by (rule andThen_DoneE)
  from d obtain u4 w4 where f: "ensureFileExists ?st ''Staged DMG'' w3 = (Done u4, w4)"
    and g: "(Done (?st, DEFAULT_RELEASE_ASSET_PREFIX @ ''_'' @ v @ ''_universal.dmg''), w4)
       = (Done staged, w')"
    by (rule andThen_DoneE)
  from g show "fst staged = ?st" by auto
  have t2: "trace w2 = trace w @ [Mkdir ?dir]"
    using mkdirSync_Done [OF m] by simp
  have t3: "trace w3 = trace w2 @ copy_events e src ?st"
    using c copyFileSync_Done [of src ?st w2 u3 w3]
    by (auto simp: copy_events_def split: if_splits)
  have t4: "trace w4 = trace w3 @ [ExistsSync ?st]"
    using f by (auto simp: ensureFileExists_eq)
  from g t2 t3 t4 show "trace w' = trace w @ [Mkdir ?dir] @ copy_events e src ?st @ [ExistsSync ?st]"
    by auto
qed

lemma sha256_Done: "sha256 e p w = (Done d, w') \<Longrightarrow> trace w' = trace w @ [ReadFile p]"
  unfolding sha256_def by (elim andThen_DoneE) (auto simp: readFileSync_eq)

lemma ensureGhAvailable_grows:
  "prefix tr (trace w) \<Longrightarrow> prefix tr (trace (snd (ensureGhAvailable e opts w)))"
  unfolding ensureGhAvailable_def
  by (auto intro!: andThen_grows runCommand_grows)

lemma ghReleaseExists_grows:
  "prefix tr (trace w) \<Longrightarrow> prefix tr (trace (snd (ghReleaseExists e t r opts w)))"
  unfolding ghReleaseExists_def Let_def
  by (auto intro!: andThen_grows runCommand_grows)

lemma uploadToGitHubRelease_grows:
  "prefix tr (trace w) \<Longrightarrow> prefix tr (trace (snd (uploadToGitHubRelease e t r p opts w)))"
  unfolding uploadToGitHubRelease_def Let_def
  by (auto intro!: andThen_grows runCommand_grows ghReleaseExists_grows)

lemma record_event_grows:
  "prefix tr (trace w) \<Longrightarrow> prefix tr (trace (record_event ev w))"
  by (simp add: prefix_prefix)

lemma writeFileSync_grows:
  "prefix tr (trace w) \<Longrightarrow> prefix tr (trace (snd (writeFileSync p c w)))"
  by (simp add: writeFileSync_def prefix_prefix)

lemma commitCaskUpdate_grows:
  "prefix tr (trace w) \<Longrightarrow> prefix tr (trace (snd (commitCaskUpdate e opts c original updated w)))"
  unfolding commitCaskUpdate_def Let_def
  by (auto intro!: andThen_grows writeFileSync_grows)

lemma updateCaskFile_grows:
  assumes "prefix tr (trace w)"
  shows "prefix tr (trace (snd (updateCaskFile e v d opts w)))"
proof (cases "skipCask opts")
  case True
  then show ?thesis using assms by (simp add: updateCaskFile_def)
next
  case False
  show ?thesis
    unfolding updateCaskFile_def Let_def using False
    apply (simp only: if_False)
    apply (rule andThen_grows)
     apply (simp add: ensureFileExists_eq assms prefix_prefix)
    apply (rule andThen_grows)
     apply (simp add: readFileSync_eq prefix_prefix)
    apply (simp add: commitCaskUpdate_grows split: res.splits)
    done
qed

lemma updateCaskFile_dry_Done:
  assumes "dryRun opts" "updateCaskFile e v d opts w = (Done u, w')"
  shows "trace w' = trace w @ cask_events e opts"
proof (cases "skipCask opts")
  case True
  then show ?thesis using assms by (auto simp: updateCaskFile_def cask_events_def)
next
  case False
  let ?c = "path_resolve e [caskPath opts]"
  from assms(2) False
  have "andThen (ensureFileExists ?c ''Cask file'' w) (\<lambda>_ w1.
           andThen (readFileSync ?c (logSection ''Update Homebrew Cask'' w1)) (\<lambda>original w2.
             case updateCaskContent v d original of
               Throw msg \<Rightarrow> (Throw msg, w2)
             | Exit n \<Rightarrow> (Exit n, w2)
             | Done updated \<Rightarrow> commitCaskUpdate e opts ?c original updated w2)) = (Done u, w')"
    by (simp add: updateCaskFile_def Let_def)
  then obtain u1 w1 original w2 where
    a: "ensureFileExists ?c ''Cask file'' w = (Done u1, w1)"
    and b: "readFileSync ?c (logSection ''Update Homebrew Cask'' w1) = (Done original, w2)"
    and c: "(case updateCaskContent v d original of
               Throw msg \<Rightarrow> (Throw msg, w2)
             | Exit n \<Rightarrow> (Exit n, w2)
             | Done updated \<Rightarrow> commitCaskUpdate e opts ?c original updated w2) = (Done u, w')"
    by (elim andThen_DoneE) blast
  from a have t1: "trace w1 = trace w @ [ExistsSync ?c]"
    by (auto simp: ensureFileExists_eq)
  from b have t2: "trace w2 = trace w1 @ [ReadFile ?c]"
    by (auto simp: readFileSync_eq)
  from c obtain updated where "commitCaskUpdate e opts ?c original updated w2 = (Done u, w')"
    by (auto split: res.splits)
  with commitCaskUpdate_dry [OF assms(1), of e ?c original updated w2]
  have "trace w' = trace w2" by simp
  with t1 t2 False show ?thesis by (simp add: cask_events_def)
qed

lemma ensureGhAvailable_dry_trace:
  "dryRun opts \<Longrightarrow> trace (snd (ensureGhAvailable e opts w)) = trace w"
  by (simp add: ensureGhAvailable_def runCommand_dry run_defaults_def)

lemma uploadToGitHubRelease_dry_trace:
  "dryRun opts \<Longrightarrow> trace (snd (uploadToGitHubRelease e t r p opts w)) = trace w"
  by (cases "skipGh opts") (simp_all add: uploadToGitHubRelease_dry, simp add: uploadToGitHubRelease_def)

lemma main_after_parse:
  assumes "fst (parseArgs argv w) = Done opts"
  shows "main e argv w =
    andThen (readPackageVersion e w) (\<lambda>version w2.
      (let tagName = (if truthy (tag opts) then the (tag opts) else ''v'' @ version);
           w3 = log (''dry-run: '' @ (if dryRun opts then ''yes'' else ''no''))
                  (log (''repo: '' @ repo opts)
                  (log (''tag: '' @ tagName)
                  (log (''version: '' @ version)
                  (log ''Cockpit Tools GitHub Release + Homebrew cask publisher'' w2))))
       in andThen (buildUniversalIfNeeded e version opts w3) (\<lambda>_ w4.
          andThen (resolveSourceDmgPath e version opts (logSection ''Resolve Universal DMG'' w4))
            (\<lambda>sourceDmgPath w5.
          andThen (stageReleaseAsset e sourceDmgPath version opts
                     (log (''asset: '' @ sourceDmgPath) w5)) (\<lambda>staged w6.
          andThen (sha256 e (if dryRun opts then sourceDmgPath else fst staged)
                     (logSection ''Compute SHA256'' w6)) (\<lambda>digest w7.
          andThen (ensureGhAvailable e opts (log (''sha256: '' @ digest) w7)) (\<lambda>_ w8.
          andThen (uploadToGitHubRelease e tagName (repo opts) (fst staged) opts w8) (\<lambda>_ w9.
          andThen (updateCaskFile e version digest opts w9) (\<lambda>_ w10.
            (Done (),
             log next_step_push (log next_step_check
               (log ''Next steps (if not using --dry-run):'' (logSection ''Done'' w10)))))))))))))"
proof -
  have "parseArgs argv w = (Done opts, w)"
    using assms parseArgs_Done_world [of argv w opts "snd (parseArgs argv w)"]
    by (cases "parseArgs argv w") auto
  then show ?thesis by (simp add: main_def)
qed

lemma resolveSourceDmgPath_Done:
  "resolveSourceDmgPath e v opts w = (Done src, w') \<Longrightarrow>
     src = source_path_of e v opts \<and> trace w' = trace w @ [ExistsSync (source_path_of e v opts)]
     \<and> files w' = files w \<and> dirs w' = dirs w
     \<and> (files w (source_path_of e v opts) \<noteq> None \<or> source_path_of e v opts \<in> dirs w)"
  by (auto simp: resolveSourceDmgPath_eq split: if_splits)

lemma stageReleaseAsset_dry_Done:
  "dryRun opts \<Longrightarrow> stageReleaseAsset e src v opts w = (Done staged, w') \<Longrightarrow>
     fst staged = staged_path_of e v \<and> trace w' = trace w"
  using stageReleaseAsset_dry [of opts e src v w] by simp

lemma stageReleaseAsset_real_Done':
  "\<not> dryRun opts \<Longrightarrow> stageReleaseAsset e src v opts w = (Done staged, w') \<Longrightarrow>
     fst staged = staged_path_of e v
     \<and> trace w' = trace w @ [Mkdir (path_resolve e [''release-artifacts''])]
            @ copy_events e src (staged_path_of e v) @ [ExistsSync (staged_path_of e v)]"
  using stageReleaseAsset_real_Done [of opts e src v w staged w'] by simp

lemma ensureGhAvailable_dry_Done:
  "dryRun opts \<Longrightarrow> ensureGhAvailable e opts w = (r, w') \<Longrightarrow> trace w' = trace w"
  using ensureGhAvailable_dry_trace [of opts e w] by simp

lemma uploadToGitHubRelease_dry_Done:
  "dryRun opts \<Longrightarrow> uploadToGitHubRelease e t rp p opts w = (r, w') \<Longrightarrow> trace w' = trace w"
  using uploadToGitHubRelease_dry_trace [of opts e t rp p w] by simp

lemma ensureGhAvailable_grows_Done:
  "ensureGhAvailable e opts w = (r, w') \<Longrightarrow> prefix (trace w) (trace w')"
  using ensureGhAvailable_grows [of "trace w" w e opts] by simp

lemma uploadToGitHubRelease_grows_Done:
  "uploadToGitHubRelease e t rp p opts w = (r, w') \<Longrightarrow> prefix (trace w) (trace w')"
  using uploadToGitHubRelease_grows [of "trace w" w e t rp p opts] by simp

lemma updateCaskFile_grows_Done:
  "updateCaskFile e v d opts w = (r, w') \<Longrightarrow> prefix (trace w) (trace w')"
  using updateCaskFile_grows [of "trace w" w e v d opts] by simp

lemma main_dry_trace:
  assumes p: "fst (parseArgs argv w) = Done opts" and d: "dryRun opts"
    and m: "main e argv w = (Done u, w')"
    and v: "fst (readPackageVersion e w) = Done version"
  shows "trace w' = trace w @ [ReadFile (path_resolve e [''package.json'']),
            ExistsSync (source_path_of e version opts), ReadFile (source_path_of e version opts)]
          @ cask_events e opts"
  using m [unfolded main_after_parse [OF p] Let_def] v
  apply (elim andThen_DoneE)
  apply (drule readPackageVersion_Done)
  apply (drule buildUniversalIfNeeded_Done)
  apply (drule resolveSourceDmgPath_Done)
  apply (drule stageReleaseAsset_dry_Done [OF d])
  apply (drule sha256_Done)
  apply (drule ensureGhAvailable_dry_Done [OF d])
  apply (drule uploadToGitHubRelease_dry_Done [OF d])
  apply (drule updateCaskFile_dry_Done [OF d])
  apply (auto simp: d)
  done

lemma main_real_trace:
  assumes p: "fst (parseArgs argv w) = Done opts" and d: "\<not> dryRun opts"
    and m: "main e argv w = (Done u, w')"
    and v: "fst (readPackageVersion e w) = Done version"
  shows "\<exists>evs. trace w' = trace w @ [ReadFile (path_resolve e [''package.json''])]
          @ build_events opts
          @ [ExistsSync (source_path_of e version opts),
             Mkdir (path_resolve e [''release-artifacts''])]
          @ copy_events e (source_path_of e version opts) (staged_path_of e version)
          @ [ExistsSync (staged_path_of e version), ReadFile (staged_path_of e version)]
          @ evs"
  using m [unfolded main_after_parse [OF p] Let_def] v
  apply (elim andThen_DoneE)
  apply (drule readPackageVersion_Done)
  apply (drule buildUniversalIfNeeded_Done)
  apply (drule resolveSourceDmgPath_Done)
  apply (drule stageReleaseAsset_real_Done' [OF d])
  apply (drule sha256_Done)
  apply (drule ensureGhAvailable_grows_Done)
  apply (drule uploadToGitHubRelease_grows_Done)
  apply (drule updateCaskFile_grows_Done)
  apply (auto simp: d prefix_def)
  done

lemma sample_version: "readPackageVersion sample_env sample_world
   = (Done ''2.3.1'', record_event (ReadFile ''/repo/package.json'') sample_world)"
  by (simp add: readPackageVersion_def readFileSync_eq sample_env_fields sample_paths
      sample_files truthy_def)


lemma sample_dry_main:
  "fst (main sample_env [''--dry-run'', ''--skip-cask''] sample_world) = Done ()"
proof -
  let ?opts = "default_options\<lparr>skipCask := True, dryRun := True\<rparr>"
  have p: "fst (parseArgs [''--dry-run'', ''--skip-cask''] sample_world) = Done ?opts"
    by (simp add: parseArgs_def default_options_def truthy_def)
  have s: "source_path_of sample_env ''2.3.1'' ?opts = sample_dmg_path"
    using sample_paths(3) by (simp add: source_path_of_def default_options_def truthy_def sample_env_fields)
  have o: "\<not> skipBuild ?opts" "\<not> skipGh ?opts" "skipCask ?opts" "dryRun ?opts" "\<not> truthy (tag ?opts)"
    by (simp_all add: default_options_def truthy_def)
  show ?thesis
    unfolding main_after_parse [OF p] sample_version
    by (simp add: Let_def buildUniversalIfNeeded_def runCommand_dry run_defaults_def
        resolveSourceDmgPath_eq s stageReleaseAsset_def sha256_def readFileSync_eq
        ensureGhAvailable_def uploadToGitHubRelease_dry updateCaskFile_def sample_files o)
qed

lemma sample_real_main:
  "fst (main sample_env [''--skip-build'', ''--skip-gh'', ''--skip-cask''] sample_world) = Done ()"
proof -
  let ?opts = "default_options\<lparr>skipBuild := True, skipGh := True, skipCask := True\<rparr>"
  have p: "fst (parseArgs [''--skip-build'', ''--skip-gh'', ''--skip-cask''] sample_world)
      = Done ?opts"
    by (simp add: parseArgs_def default_options_def truthy_def)
  have s: "source_path_of sample_env ''2.3.1'' ?opts = sample_dmg_path"
    using sample_paths(3) by (simp add: source_path_of_def default_options_def truthy_def sample_env_fields)
  have o: "skipBuild ?opts" "skipGh ?opts" "skipCask ?opts" "\<not> dryRun ?opts" "\<not> truthy (tag ?opts)"
    by (simp_all add: default_options_def truthy_def)
  have n: "sample_dmg_path \<noteq> ''/repo/release-artifacts/Cockpit.Tools_2.3.1_universal.dmg''"
    by (simp add: sample_dmg_path_def)
  show ?thesis
    unfolding main_after_parse [OF p] sample_version
    by (simp add: Let_def buildUniversalIfNeeded_def o
        resolveSourceDmgPath_eq s stageReleaseAsset_def sha256_def readFileSync_eq
        ensureGhAvailable_def uploadToGitHubRelease_def updateCaskFile_def
        mkdirSync_def copyFileSync_def ensureFileExists_eq sample_files
        sample_env_fields sample_paths DEFAULT_RELEASE_ASSET_PREFIX_def n
        sample_world_fields(2))
qed

text \<open>
  Claim C10. The existence check of \<^const>\<open>resolveSourceDmgPath\<close> does not depend on the
  dry-run flag: in every world it returns the source path when something exists there and
  throws otherwise, so a dry run whose source artifact is missing fails with that error.
  In a dry run that completes, the calls to the file system are the read of
  \<^verbatim>\<open>package.json\<close>, the existence check of the source artifact, the read of the source
  artifact for the digest, and the two calls of the manifest updater: the digest is read
  from the source path. In a run that is not a dry run and completes, the digest is read
  from the staged path, right after the staged copy was made and checked.
\<close>

theorem digest_input_path:
  "fst (parseArgs argv w) = Done opts \<and> fst (readPackageVersion e w) = Done version \<longrightarrow>
     (let src = source_path_of e version opts;
          staged = staged_path_of e version;
          issued = drop (length (trace w)) (trace (snd (main e argv w)))
      in (\<forall>w1. fst (resolveSourceDmgPath e version opts w1)
                 = (if files w1 src \<noteq> None \<or> src \<in> dirs w1 then Done src
                    else Throw (source_label opts @ '' not found: '' @ src)))
       \<and> (dryRun opts \<and> files w src = None \<and> src \<notin> dirs w \<longrightarrow>
             fst (main e argv w) = Throw (source_label opts @ '' not found: '' @ src))
       \<and> (dryRun opts \<and> fst (main e argv w) = Done () \<longrightarrow>
             issued = [ReadFile (path_resolve e [''package.json'']), ExistsSync src, ReadFile src]
                      @ cask_events e opts)
       \<and> (\<not> dryRun opts \<and> fst (main e argv w) = Done () \<longrightarrow>
             (\<exists>evs. issued = [ReadFile (path_resolve e [''package.json''])] @ build_events opts
                      @ [ExistsSync src, Mkdir (path_resolve e [''release-artifacts''])]
                      @ copy_events e src staged
                      @ [ExistsSync staged, ReadFile staged] @ evs)))"
proof (intro impI, elim conjE)
  assume p: "fst (parseArgs argv w) = Done opts" and v: "fst (readPackageVersion e w) = Done version"
  let ?src = "source_path_of e version opts"
  let ?staged = "staged_path_of e version"
  let ?issued = "drop (length (trace w)) (trace (snd (main e argv w)))"
  obtain r w' where m: "main e argv w = (r, w')"
    by (cases "main e argv w")
  have a: "fst (resolveSourceDmgPath e version opts w1)
                 = (if files w1 ?src \<noteq> None \<or> ?src \<in> dirs w1 then Done ?src
                    else Throw (source_label opts @ '' not found: '' @ ?src))" for w1
    by (simp add: resolveSourceDmgPath_eq)
  have b: "fst (main e argv w) = Throw (source_label opts @ '' not found: '' @ ?src)"
    if "dryRun opts" "files w ?src = None" "?src \<notin> dirs w"
  proof -
    obtain w2 where rv: "readPackageVersion e w = (Done version, w2)"
      using v by (cases "readPackageVersion e w") auto
    from readPackageVersion_Done [OF rv]
    have w2: "files w2 = files w" "dirs w2 = dirs w" by simp_all
    show ?thesis
      unfolding main_after_parse [OF p] rv
      using that
      by (simp add: Let_def buildUniversalIfNeeded_def runCommand_dry run_defaults_def
          resolveSourceDmgPath_eq w2)
  qed
  have c: "?issued = [ReadFile (path_resolve e [''package.json'']), ExistsSync ?src, ReadFile ?src]
                      @ cask_events e opts"
    if "dryRun opts" "fst (main e argv w) = Done ()"
  proof -
    from that(2) m have m': "main e argv w = (Done (), w')" by simp
    from main_dry_trace [OF p that(1) m' v] m' show ?thesis by simp
  qed
  have d: "\<exists>evs. ?issued = [ReadFile (path_resolve e [''package.json''])] @ build_events opts
                      @ [ExistsSync ?src, Mkdir (path_resolve e [''release-artifacts''])]
                      @ copy_events e ?src ?staged
                      @ [ExistsSync ?staged, ReadFile ?staged] @ evs"
    if "\<not> dryRun opts" "fst (main e argv w) = Done ()"
  proof -
    from that(2) m have m': "main e argv w = (Done (), w')" by simp
    from main_real_trace [OF p that(1) m' v] m' show ?thesis by auto
  qed
  from a b c d show "let src = ?src; staged = ?staged; issued = ?issued
      in (\<forall>w1. fst (resolveSourceDmgPath e version opts w1)
                 = (if files w1 src \<noteq> None \<or> src \<in> dirs w1 then Done src
                    else Throw (source_label opts @ '' not found: '' @ src)))
       \<and> (dryRun opts \<and> files w src = None \<and> src \<notin> dirs w \<longrightarrow>
             fst (main e argv w) = Throw (source_label opts @ '' not found: '' @ src))
       \<and> (dryRun opts \<and> fst (main e argv w) = Done () \<longrightarrow>
             issued = [ReadFile (path_resolve e [''package.json'']), ExistsSync src, ReadFile src]
                      @ cask_events e opts)
       \<and> (\<not> dryRun opts \<and> fst (main e argv w) = Done () \<longrightarrow>
             (\<exists>evs. issued = [ReadFile (path_resolve e [''package.json''])] @ build_events opts
                      @ [ExistsSync src, Mkdir (path_resolve e [''release-artifacts''])]
                      @ copy_events e src staged
                      @ [ExistsSync staged, ReadFile staged] @ evs))"
    unfolding Let_def by blast
qed

theorem digest_input_path_witness:
  "trace (snd (main sample_env [''--dry-run'', ''--skip-cask''] sample_world))
     = [ReadFile ''/repo/package.json'', ExistsSync sample_dmg_path, ReadFile sample_dmg_path]
   \<and> (\<exists>evs. trace (snd (main sample_env [''--skip-build'', ''--skip-gh'', ''--skip-cask''] sample_world))
     = [ReadFile ''/repo/package.json'', ExistsSync sample_dmg_path,
        Mkdir ''/repo/release-artifacts'',
        CopyFile sample_dmg_path ''/repo/release-artifacts/Cockpit.Tools_2.3.1_universal.dmg'',
        ExistsSync ''/repo/release-artifacts/Cockpit.Tools_2.3.1_universal.dmg'',
        ReadFile ''/repo/release-artifacts/Cockpit.Tools_2.3.1_universal.dmg''] @ evs)"
proof -
  let ?dry = "default_options\<lparr>skipCask := True, dryRun := True\<rparr>"
  let ?real = "default_options\<lparr>skipBuild := True, skipGh := True, skipCask := True\<rparr>"
  have p1: "fst (parseArgs [''--dry-run'', ''--skip-cask''] sample_world) = Done ?dry"
    by (simp add: parseArgs_def default_options_def truthy_def)
  have p2: "fst (parseArgs [''--skip-build'', ''--skip-gh'', ''--skip-cask''] sample_world) = Done ?real"
    by (simp add: parseArgs_def default_options_def truthy_def)
  have v: "fst (readPackageVersion sample_env sample_world) = Done ''2.3.1''"
    by (simp add: sample_version)
  have s: "source_path_of sample_env ''2.3.1'' ?dry = sample_dmg_path"
    "source_path_of sample_env ''2.3.1'' ?real = sample_dmg_path"
    using sample_paths(3)
    by (simp_all add: source_path_of_def default_options_def truthy_def sample_env_fields)
  have st: "staged_path_of sample_env ''2.3.1''
      = ''/repo/release-artifacts/Cockpit.Tools_2.3.1_universal.dmg''"
    by (simp add: staged_path_of_def sample_env_fields sample_paths DEFAULT_RELEASE_ASSET_PREFIX_def)
  have o: "dryRun ?dry" "\<not> dryRun ?real" "cask_events sample_env ?dry = []"
    "build_events ?real = []"
    by (simp_all add: default_options_def cask_events_def build_events_def)
  have c: "copy_events sample_env sample_dmg_path
             ''/repo/release-artifacts/Cockpit.Tools_2.3.1_universal.dmg''
           = [CopyFile sample_dmg_path ''/repo/release-artifacts/Cockpit.Tools_2.3.1_universal.dmg'']"
    by (simp add: copy_events_def sample_env_fields sample_paths) (simp add: sample_dmg_path_def)
  show ?thesis
    using digest_input_path [where argv = "[''--dry-run'', ''--skip-cask'']" and w = sample_world
        and opts = ?dry and e = sample_env and version = "''2.3.1''"]
      digest_input_path [where argv = "[''--skip-build'', ''--skip-gh'', ''--skip-cask'']"
        and w = sample_world and opts = ?real and e = sample_env and version = "''2.3.1''"]
      p1 p2 v sample_dry_main sample_real_main
    by (simp add: Let_def s st o c sample_world_fields sample_env_fields sample_paths)
qed

subsection \<open>Manifest updater\<close>








subsection \<open>The matcher on fields\<close>

lemma push_char_push_piece [simp]: "push_char x (push_piece p m) = push_piece (x # p) m"
  by (simp add: push_char_def push_piece_def)
















subsection \<open>The search\<close>


lemma no_match_in_Nil [simp]: "no_match_in rs pre [] rest"
  by (simp add: no_match_in_def)






subsection \<open>Changing the value of a field\<close>







subsection \<open>Where a field can start\<close>






subsection \<open>Two fields in one text\<close>





subsection \<open>The replacement text\<close>




subsection \<open>A change in another field\<close>



subsection \<open>The patterns of the manifest updater\<close>




lemma semver_char_plain:
  "semver_char c \<Longrightarrow> c \<noteq> dq \<and> c \<noteq> CHR ''$'' \<and> \<not> is_line_terminator c"
  unfolding semver_char_def dq_def is_line_terminator_def by auto



lemma semver_plain_version: "is_version v \<Longrightarrow> plain_version v"
  using semver_char_plain
  by (auto simp: is_version_def plain_version_def plain_char_def list_all_iff)




subsection \<open>Substituting twice\<close>






subsection \<open>Applying the update twice\<close>










lemma digest_hex_is_digest: "is_digest (digest_hex d)"
proof -
  have "digest_hex d \<noteq> []" using digest_hex_length [of d] by auto
  moreover have "is_hex c" if "c \<in> set (digest_hex d)" for c
    using digest_hex_lower [OF that] unfolding is_hex_def by auto
  ultimately show ?thesis by (simp add: is_digest_def list_all_iff)
qed


end
